theory Spec2Isabelle
  imports Main "HOL-Library.Sublist"
begin

section \<open>Python strings\<close>

text \<open>
  A Python \<open>str\<close> is a sequence of Unicode code points.  A code point is a natural
  number and a string a list of them, so that \<open>length\<close>, \<open>in\<close> and slicing count
  code points as Python does.  ASCII literals are written \<open>cps ''...''\<close>; any other
  character of the source file is written as its code point (the file is UTF-8 with
  precomposed letters: \<open>0xE1\<close> a-acute, \<open>0xE9\<close> e-acute, \<open>0xED\<close> i-acute,
  \<open>0xF3\<close> o-acute, \<open>0xFA\<close> u-acute, \<open>0xFC\<close> u-diaeresis).
\<close>

type_synonym codepoint = nat
type_synonym ustr = "codepoint list"

definition cps :: "string \<Rightarrow> ustr" where
  "cps s = map of_char s"

text \<open>\<open>w in s\<close> on strings: \<open>w\<close> occurs in \<open>s\<close> as a contiguous run.\<close>

fun startswith :: "ustr \<Rightarrow> ustr \<Rightarrow> bool" where
  "startswith s [] = True"
| "startswith [] (c # w) = False"
| "startswith (d # s) (c # w) = (d = c \<and> startswith s w)"

fun str_in :: "ustr \<Rightarrow> ustr \<Rightarrow> bool" where
  "str_in w [] = (w = [])"
| "str_in w (d # s) = (startswith (d # s) w \<or> str_in w s)"

text \<open>\<open>sep.join(xs)\<close>.\<close>

fun join :: "ustr \<Rightarrow> ustr list \<Rightarrow> ustr" where
  "join sep [] = []"
| "join sep [x] = x"
| "join sep (x # y # ys) = x @ sep @ join sep (y # ys)"

subsection \<open>The Unicode character database\<close>

text \<open>
  \<open>str.strip\<close>, \<open>str.split\<close>, \<open>str.lower\<close>, \<open>unicodedata.normalize\<close> and
  \<open>unicodedata.category\<close> read the interpreter's Unicode tables, which are not part of
  the program.  They are a parameter:
  \<^item> \<open>isspace c\<close>: \<open>c\<close> is whitespace for \<open>strip()\<close> and \<open>split()\<close>;
  \<^item> \<open>lower s\<close>: \<open>s.lower()\<close> (a function of the whole string: the mapping may
    change the length and depends on context for the Greek final sigma);
  \<^item> \<open>nfd s\<close>: \<open>unicodedata.normalize('NFD', s)\<close>;
  \<^item> \<open>is_Mn c\<close>: \<open>unicodedata.category(c) == 'Mn'\<close>.
\<close>

record unicode_db =
  isspace :: "codepoint \<Rightarrow> bool"
  lower :: "ustr \<Rightarrow> ustr"
  nfd :: "ustr \<Rightarrow> ustr"
  is_Mn :: "codepoint \<Rightarrow> bool"

text \<open>\<open>s.strip()\<close>: leading and trailing whitespace removed.\<close>

definition strip :: "unicode_db \<Rightarrow> ustr \<Rightarrow> ustr" where
  "strip u s = rev (dropWhile (isspace u) (rev (dropWhile (isspace u) s)))"

text \<open>
  \<open>s.split()\<close>: the maximal runs of non-whitespace characters, in order.  The
  second argument is the word being read.
\<close>

fun split_from :: "unicode_db \<Rightarrow> ustr \<Rightarrow> ustr \<Rightarrow> ustr list" where
  "split_from u cur [] = (if cur = [] then [] else [cur])"
| "split_from u cur (c # s) =
     (if isspace u c
      then (if cur = [] then split_from u [] s else cur # split_from u [] s)
      else split_from u (cur @ [c]) s)"

definition split :: "unicode_db \<Rightarrow> ustr \<Rightarrow> ustr list" where
  "split u s = split_from u [] s"

section \<open>The validator\<close>

text \<open>
  A tagged document is the list of its tokens, each with its coarse part of speech
  \<open>pos\<close> (the source's \<open>pos_\<close>).  A call of the tagger returns a document or raises.
\<close>

record token =
  pos :: ustr

datatype error = TaggerFault ustr

type_synonym tagger = "ustr \<Rightarrow> error + token list"

record validator =
  nlp :: "tagger option"
  weak_words :: "ustr list"
  functional_keywords :: "ustr list"
  non_functional_keywords :: "ustr list"

text \<open>
  \<open>__init__\<close>: the argument is the outcome of \<open>spacy.load\<close>, \<open>None\<close> when it
  raised.
\<close>

definition AdvancedRequirementValidator :: "tagger option \<Rightarrow> validator" where
  "AdvancedRequirementValidator loaded =
     \<lparr> nlp = loaded,
       weak_words =
         [cps ''algo'', cps ''alg'' @ [0xFA] @ cps ''n'', cps ''algunos'', cps ''tal vez'',
          cps ''quiz'' @ [0xE1] @ cps ''s'', cps ''podr'' @ [0xED] @ cps ''a'',
          cps ''aproximadamente'', cps ''m'' @ [0xE1] @ cps ''s o menos'', cps ''creo que'',
          cps ''parece''],
       functional_keywords =
         [cps ''debe'', cps ''deber'' @ [0xED] @ cps ''a'', cps ''tiene que'', cps ''permitir'',
          cps ''gestionar'', cps ''calcular'', cps ''mostrar'', cps ''registrar'',
          cps ''generar''],
       non_functional_keywords =
         [cps ''rendimiento'', cps ''seguridad'', cps ''escalabilidad'',
          cps ''disponibilidad'', cps ''usabilidad'', cps ''tiempo de respuesta'',
          cps ''n'' @ [0xFA] @ cps ''mero de usuarios''] \<rparr>"

definition normalize_text :: "unicode_db \<Rightarrow> ustr \<Rightarrow> ustr" where
  "normalize_text u text = filter (\<lambda>c. \<not> is_Mn u c) (nfd u (lower u text))"

subsection \<open>The report\<close>

text \<open>
  An entry of \<open>errors\<close> has the keys \<open>type\<close>, \<open>description\<close>, \<open>suggestion\<close>; an
  entry of \<open>suggestions\<close> has \<open>type\<close>, \<open>description\<close>, \<open>recommendation\<close>.
\<close>

record error_entry =
  err_type :: ustr
  err_description :: ustr
  err_suggestion :: ustr

record suggestion_entry =
  sug_type :: ustr
  sug_description :: ustr
  sug_recommendation :: ustr

record report =
  original_text :: ustr
  is_valid :: bool
  errors :: "error_entry list"
  suggestions :: "suggestion_entry list"

text \<open>The finding labels.\<close>

definition Longitud_Insuficiente :: ustr where
  "Longitud_Insuficiente = cps ''Longitud Insuficiente''"

definition Ambiguedad :: ustr where
  "Ambiguedad = cps ''Ambig'' @ [0xFC] @ cps ''edad''"

definition Ausencia_de_Palabras_Clave :: ustr where
  "Ausencia_de_Palabras_Clave = cps ''Ausencia de Palabras Clave''"

definition Falta_de_Especificidad :: ustr where
  "Falta_de_Especificidad = cps ''Falta de Especificidad''"

definition Medibilidad :: ustr where
  "Medibilidad = cps ''Medibilidad''"

text \<open>
  Every error is recorded by the same two statements: \<open>is_valid\<close> is set to
  \<open>False\<close> and the entry is appended to \<open>errors\<close>.
\<close>

definition record_error :: "error_entry \<Rightarrow> report \<Rightarrow> report" where
  "record_error e r = r\<lparr> is_valid := False, errors := errors r @ [e] \<rparr>"

subsection \<open>The checks, in the order of the source\<close>

definition length_check :: "unicode_db \<Rightarrow> ustr \<Rightarrow> report \<Rightarrow> report" where
  "length_check u requirement r =
     (if length (split u requirement) < 5
      then record_error
             \<lparr> err_type = Longitud_Insuficiente,
               err_description =
                 cps ''El requerimiento es demasiado corto para ser significativo.'',
               err_suggestion =
                 cps ''Expanda su requerimiento para incluir m'' @ [0xE1]
                 @ cps ''s detalles espec'' @ [0xED] @ cps ''ficos.'' \<rparr> r
      else r)"

definition ambiguous_words_found :: "validator \<Rightarrow> ustr \<Rightarrow> ustr list" where
  "ambiguous_words_found v normalized_req =
     filter (\<lambda>word. str_in word normalized_req) (weak_words v)"

definition ambiguity_check :: "validator \<Rightarrow> ustr \<Rightarrow> report \<Rightarrow> report" where
  "ambiguity_check v normalized_req r =
     (if ambiguous_words_found v normalized_req \<noteq> []
      then record_error
             \<lparr> err_type = Ambiguedad,
               err_description =
                 cps ''Se encontraron palabras ambiguas: ''
                 @ join (cps '', '') (ambiguous_words_found v normalized_req),
               err_suggestion =
                 cps ''Reemplace palabras vagas con t'' @ [0xE9]
                 @ cps ''rminos precisos y concretos.'' \<rparr> r
      else r)"

definition keywords_of :: "validator \<Rightarrow> bool \<Rightarrow> ustr list" where
  "keywords_of v is_functional =
     (if is_functional then functional_keywords v else non_functional_keywords v)"

definition has_keywords :: "validator \<Rightarrow> bool \<Rightarrow> ustr \<Rightarrow> bool" where
  "has_keywords v is_functional normalized_req =
     list_ex (\<lambda>keyword. str_in keyword normalized_req) (keywords_of v is_functional)"

definition keyword_check :: "validator \<Rightarrow> bool \<Rightarrow> ustr \<Rightarrow> report \<Rightarrow> report" where
  "keyword_check v is_functional normalized_req r =
     (if \<not> has_keywords v is_functional normalized_req
      then record_error
             \<lparr> err_type = Ausencia_de_Palabras_Clave,
               err_description =
                 cps ''No se encontraron palabras caracter'' @ [0xED]
                 @ cps ''sticas del tipo de requerimiento.'',
               err_suggestion =
                 cps ''Incluya palabras como: ''
                 @ join (cps '', '') (take 3 (keywords_of v is_functional)) \<rparr> r
      else r)"

definition verbs :: "token list \<Rightarrow> token list" where
  "verbs doc = filter (\<lambda>token. pos token = cps ''VERB'') doc"

definition nouns :: "token list \<Rightarrow> token list" where
  "nouns doc = filter (\<lambda>token. pos token = cps ''NOUN'') doc"

text \<open>
  The only call that can raise: \<open>self.nlp(requirement)\<close>.  Its exception leaves
  \<open>validate_requirement\<close>.
\<close>

definition specificity_check :: "validator \<Rightarrow> ustr \<Rightarrow> report \<Rightarrow> error + report" where
  "specificity_check v requirement r =
     (case nlp v of
        None \<Rightarrow> Inr r
      | Some tag \<Rightarrow>
          (case tag requirement of
             Inl e \<Rightarrow> Inl e
           | Inr doc \<Rightarrow>
               if length (verbs doc) = 0 \<or> length (nouns doc) < 2
               then Inr (record_error
                      \<lparr> err_type = Falta_de_Especificidad,
                        err_description =
                          cps ''El requerimiento carece de verbos o sustantivos espec''
                          @ [0xED] @ cps ''ficos.'',
                        err_suggestion =
                          cps ''Defina claramente la acci'' @ [0xF3]
                          @ cps ''n (verbo) y el objeto (sustantivo) del requerimiento.'' \<rparr> r)
               else Inr r))"

definition metrics_indicators :: "ustr list" where
  "metrics_indicators =
     [cps ''m'' @ [0xE1] @ cps ''ximo'', cps ''m'' @ [0xED] @ cps ''nimo'', cps ''al menos'',
      cps ''no m'' @ [0xE1] @ cps ''s de'', cps ''%'']"

definition has_metrics :: "unicode_db \<Rightarrow> ustr \<Rightarrow> bool" where
  "has_metrics u requirement =
     list_ex (\<lambda>metric. str_in metric (lower u requirement)) metrics_indicators"

definition metrics_check :: "unicode_db \<Rightarrow> bool \<Rightarrow> ustr \<Rightarrow> report \<Rightarrow> report" where
  "metrics_check u is_functional requirement r =
     (if \<not> has_metrics u requirement \<and> is_functional
      then r\<lparr> suggestions := suggestions r @
             [\<lparr> sug_type = Medibilidad,
                sug_description =
                  cps ''No se detectaron m'' @ [0xE9] @ cps ''tricas espec'' @ [0xED]
                  @ cps ''ficas.'',
                sug_recommendation =
                  cps ''Considere agregar m'' @ [0xE9] @ cps ''tricas o criterios de aceptaci''
                  @ [0xF3] @ cps ''n medibles.'' \<rparr>] \<rparr>
      else r)"

text \<open>
  The checks applied to a report under construction.  The text has been stripped
  already.
\<close>

definition run_checks ::
  "unicode_db \<Rightarrow> validator \<Rightarrow> ustr \<Rightarrow> bool \<Rightarrow> report \<Rightarrow> error + report" where
  "run_checks u v requirement is_functional r =
     (let normalized_req = normalize_text u requirement;
          r1 = length_check u requirement r;
          r2 = ambiguity_check v normalized_req r1;
          r3 = keyword_check v is_functional normalized_req r2
      in case specificity_check v requirement r3 of
           Inl e \<Rightarrow> Inl e
         | Inr r4 \<Rightarrow> Inr (metrics_check u is_functional requirement r4))"

definition validate_requirement ::
  "unicode_db \<Rightarrow> validator \<Rightarrow> ustr \<Rightarrow> bool \<Rightarrow> error + report" where
  "validate_requirement u v requirement0 is_functional =
     (let requirement = strip u requirement0
      in run_checks u v requirement is_functional
           \<lparr> original_text = requirement, is_valid = True, errors = [], suggestions = [] \<rparr>)"

section \<open>An excerpt of the Unicode tables\<close>

text \<open>
  To run the validator on concrete texts the tables are instantiated with the part of
  the Unicode character database that Spanish text uses: Basic Latin, the Latin-1
  Supplement and the combining diacritical marks \<open>U+0300\<close> to \<open>U+036F\<close>.
  \<^item> \<open>whitespace\<close> is the interpreter's complete whitespace set.
  \<^item> \<open>latin1_lower\<close> is the lower-case mapping of the code points below
    \<open>U+0100\<close>; other code points are left as they are.
  \<^item> \<open>latin1_decomposition\<close> lists every code point below \<open>U+0100\<close> that has a
    canonical decomposition; other code points are left as they are, and marks are
    not reordered.
  \<^item> The nonspacing marks (\<open>Mn\<close>) of the excerpt are exactly \<open>U+0300\<close> to
    \<open>U+036F\<close>.
  The theorems below hold for every table; the excerpt is used only to evaluate them
  on examples.
\<close>

definition whitespace :: "codepoint \<Rightarrow> bool" where
  "whitespace c =
     ((0x09 \<le> c \<and> c \<le> 0x0D) \<or> (0x1C \<le> c \<and> c \<le> 0x20) \<or> c = 0x85 \<or> c = 0xA0
      \<or> c = 0x1680 \<or> (0x2000 \<le> c \<and> c \<le> 0x200A) \<or> c = 0x2028 \<or> c = 0x2029
      \<or> c = 0x202F \<or> c = 0x205F \<or> c = 0x3000)"

definition latin1_lower :: "codepoint \<Rightarrow> codepoint" where
  "latin1_lower c =
     (if (0x41 \<le> c \<and> c \<le> 0x5A) \<or> (0xC0 \<le> c \<and> c \<le> 0xDE \<and> c \<noteq> 0xD7)
      then c + 0x20 else c)"

definition latin1_decomposition :: "(codepoint \<times> ustr) list" where
  "latin1_decomposition =
     [(0xC0, [0x41, 0x300]), (0xC1, [0x41, 0x301]), (0xC2, [0x41, 0x302]),
      (0xC3, [0x41, 0x303]), (0xC4, [0x41, 0x308]), (0xC5, [0x41, 0x30A]),
      (0xC7, [0x43, 0x327]),
      (0xC8, [0x45, 0x300]), (0xC9, [0x45, 0x301]), (0xCA, [0x45, 0x302]),
      (0xCB, [0x45, 0x308]),
      (0xCC, [0x49, 0x300]), (0xCD, [0x49, 0x301]), (0xCE, [0x49, 0x302]),
      (0xCF, [0x49, 0x308]),
      (0xD1, [0x4E, 0x303]),
      (0xD2, [0x4F, 0x300]), (0xD3, [0x4F, 0x301]), (0xD4, [0x4F, 0x302]),
      (0xD5, [0x4F, 0x303]), (0xD6, [0x4F, 0x308]),
      (0xD9, [0x55, 0x300]), (0xDA, [0x55, 0x301]), (0xDB, [0x55, 0x302]),
      (0xDC, [0x55, 0x308]), (0xDD, [0x59, 0x301]),
      (0xE0, [0x61, 0x300]), (0xE1, [0x61, 0x301]), (0xE2, [0x61, 0x302]),
      (0xE3, [0x61, 0x303]), (0xE4, [0x61, 0x308]), (0xE5, [0x61, 0x30A]),
      (0xE7, [0x63, 0x327]),
      (0xE8, [0x65, 0x300]), (0xE9, [0x65, 0x301]), (0xEA, [0x65, 0x302]),
      (0xEB, [0x65, 0x308]),
      (0xEC, [0x69, 0x300]), (0xED, [0x69, 0x301]), (0xEE, [0x69, 0x302]),
      (0xEF, [0x69, 0x308]),
      (0xF1, [0x6E, 0x303]),
      (0xF2, [0x6F, 0x300]), (0xF3, [0x6F, 0x301]), (0xF4, [0x6F, 0x302]),
      (0xF5, [0x6F, 0x303]), (0xF6, [0x6F, 0x308]),
      (0xF9, [0x75, 0x300]), (0xFA, [0x75, 0x301]), (0xFB, [0x75, 0x302]),
      (0xFC, [0x75, 0x308]), (0xFD, [0x79, 0x301]), (0xFF, [0x79, 0x308])]"

definition latin1_decompose :: "codepoint \<Rightarrow> ustr" where
  "latin1_decompose c =
     (case map_of latin1_decomposition c of None \<Rightarrow> [c] | Some d \<Rightarrow> d)"

definition latin1_db :: unicode_db where
  "latin1_db =
     \<lparr> isspace = whitespace,
       lower = map latin1_lower,
       nfd = (\<lambda>s. concat (map latin1_decompose s)),
       is_Mn = (\<lambda>c. 0x300 \<le> c \<and> c \<le> 0x36F) \<rparr>"

text \<open>
  A stand-in for a loaded tagger, for the examples: one token for each word, a
  \<open>DET\<close> for a word of one or two letters, a \<open>VERB\<close> for a longer word ending
  in \<open>r\<close> (a Spanish infinitive) and a \<open>NOUN\<close> for any other.
\<close>

definition sample_tagger :: tagger where
  "sample_tagger text =
     Inr (map (\<lambda>w. \<lparr> pos = (if length w \<le> 2 then cps ''DET''
                              else if last w = 0x72 then cps ''VERB'' else cps ''NOUN'') \<rparr>)
            (split latin1_db text))"

section \<open>The method on the object store\<close>

text \<open>
  A second reading of the same source, one level down: the lists of the program are
  objects in a store, reached through references, and its dictionary is a finite map.
  Here the operations that can raise in Python can raise in the model:
  \<^item> \<open>d[k]\<close> raises \<open>KeyError\<close> when the key is missing;
  \<^item> \<open>x.append(v)\<close> raises \<open>AttributeError\<close> when \<open>x\<close> is not a list;
  \<^item> \<open>w in s\<close> and \<open>sep.join(xs)\<close> raise \<open>TypeError\<close> when \<open>w\<close>, or an
    element of \<open>xs\<close>, is not a string, and \<open>unicodedata.category(c)\<close> when \<open>c\<close>
    is not a string of length one;
  \<^item> the tagger raises what it raises.
  A list is a list of items of any kind, as in Python, so that appending to the wrong
  list is possible and is a change of that list.  An exception leaves the store as
  it is at that moment.  The objects in the store are the ones that outlive a
  statement and can be reached again: the three tables of the validator and the two
  lists of the report.  The result of the list comprehension, the slice
  \<open>keywords[:3]\<close>, the local list of metric indicators and the entries are
  values, and so is the dictionary, which only this call holds until it returns.
\<close>

type_synonym addr = nat

datatype item = Str ustr | ErrorEntry error_entry | SuggestionEntry suggestion_entry

record store =
  cells :: "addr \<Rightarrow> item list"
  fresh :: addr

datatype py_error = Raised error | KeyError string | AttributeError | TypeError

datatype val = VStr ustr | VBool bool | VRef addr

type_synonym dict = "string \<rightharpoonup> val"

type_synonym 'a action = "store \<Rightarrow> (py_error + 'a) \<times> store"

definition ret :: "'a \<Rightarrow> 'a action" where
  "ret x st = (Inr x, st)"

definition then_do :: "'a action \<Rightarrow> ('a \<Rightarrow> 'b action) \<Rightarrow> 'b action" where
  "then_do m k st = (case m st of (Inl e, st') \<Rightarrow> (Inl e, st') | (Inr x, st') \<Rightarrow> k x st')"

definition lift :: "py_error + 'a \<Rightarrow> 'a action" where
  "lift r st = (r, st)"

text \<open>\<open>[]\<close> and \<open>[x, y, ...]\<close>: a new list object, at an address not in use.\<close>

definition new_list :: "item list \<Rightarrow> addr action" where
  "new_list xs st =
     (Inr (fresh st), st\<lparr> cells := (cells st)(fresh st := xs), fresh := Suc (fresh st) \<rparr>)"

definition read_list :: "addr \<Rightarrow> item list action" where
  "read_list a st = (Inr (cells st a), st)"

text \<open>\<open>x.append(v)\<close>.\<close>

definition append_to :: "val \<Rightarrow> item \<Rightarrow> unit action" where
  "append_to x v st =
     (case x of
        VRef a \<Rightarrow> (Inr (), st\<lparr> cells := (cells st)(a := cells st a @ [v]) \<rparr>)
      | _ \<Rightarrow> (Inl AttributeError, st))"

text \<open>\<open>d[k]\<close>.\<close>

definition getitem :: "dict \<Rightarrow> string \<Rightarrow> py_error + val" where
  "getitem d k = (case d k of None \<Rightarrow> Inl (KeyError k) | Some x \<Rightarrow> Inr x)"

text \<open>\<open>word in s\<close> for an item of a list.\<close>

definition item_in :: "item \<Rightarrow> ustr \<Rightarrow> py_error + bool" where
  "item_in word s = (case word of Str w \<Rightarrow> Inr (str_in w s) | _ \<Rightarrow> Inl TypeError)"

text \<open>\<open>[word for word in xs if word in s]\<close>.\<close>

fun items_in :: "item list \<Rightarrow> ustr \<Rightarrow> py_error + item list" where
  "items_in [] s = Inr []"
| "items_in (word # xs) s =
     (case item_in word s of
        Inl e \<Rightarrow> Inl e
      | Inr b \<Rightarrow>
          (case items_in xs s of
             Inl e \<Rightarrow> Inl e
           | Inr found \<Rightarrow> Inr (if b then word # found else found)))"

text \<open>\<open>any(keyword in s for keyword in xs)\<close>, which stops at the first match.\<close>

fun any_in :: "item list \<Rightarrow> ustr \<Rightarrow> py_error + bool" where
  "any_in [] s = Inr False"
| "any_in (keyword # xs) s =
     (case item_in keyword s of
        Inl e \<Rightarrow> Inl e
      | Inr b \<Rightarrow> if b then Inr True else any_in xs s)"

text \<open>\<open>sep.join(xs)\<close> for a list of items.\<close>

fun strings :: "item list \<Rightarrow> py_error + ustr list" where
  "strings [] = Inr []"
| "strings (Str w # xs) = (case strings xs of Inl e \<Rightarrow> Inl e | Inr ws \<Rightarrow> Inr (w # ws))"
| "strings (_ # xs) = Inl TypeError"

definition join_items :: "ustr \<Rightarrow> item list \<Rightarrow> py_error + ustr" where
  "join_items sep xs = (case strings xs of Inl e \<Rightarrow> Inl e | Inr ws \<Rightarrow> Inr (join sep ws))"

text \<open>
  \<open>normalize_text\<close>: iterating over a string gives strings of length one, and
  \<open>unicodedata.category\<close> accepts only those.
\<close>

definition category_is_Mn :: "unicode_db \<Rightarrow> ustr \<Rightarrow> py_error + bool" where
  "category_is_Mn u c = (case c of [x] \<Rightarrow> Inr (is_Mn u x) | _ \<Rightarrow> Inl TypeError)"

fun without_Mn :: "unicode_db \<Rightarrow> ustr list \<Rightarrow> py_error + ustr list" where
  "without_Mn u [] = Inr []"
| "without_Mn u (c # cs) =
     (case category_is_Mn u c of
        Inl e \<Rightarrow> Inl e
      | Inr b \<Rightarrow>
          (case without_Mn u cs of
             Inl e \<Rightarrow> Inl e
           | Inr kept \<Rightarrow> Inr (if b then kept else c # kept)))"

definition normalize_text_obj :: "unicode_db \<Rightarrow> ustr \<Rightarrow> py_error + ustr" where
  "normalize_text_obj u text =
     (case without_Mn u (map (\<lambda>c. [c]) (nfd u (lower u text))) of
        Inl e \<Rightarrow> Inl e
      | Inr kept \<Rightarrow> Inr (concat kept))"

text \<open>The validator object: its tagger and the references to its three tables.\<close>

record validator_obj =
  nlp_attr :: "tagger option"
  weak_words_ref :: addr
  functional_keywords_ref :: addr
  non_functional_keywords_ref :: addr

text \<open>\<open>__init__\<close>: three new lists of strings.\<close>

definition init_obj :: "tagger option \<Rightarrow> validator_obj action" where
  "init_obj loaded =
     then_do (new_list (map Str (weak_words (AdvancedRequirementValidator loaded)))) (\<lambda>ww.
     then_do (new_list (map Str (functional_keywords (AdvancedRequirementValidator loaded)))) (\<lambda>fk.
     then_do (new_list (map Str (non_functional_keywords (AdvancedRequirementValidator loaded)))) (\<lambda>nk.
     ret \<lparr> nlp_attr = loaded, weak_words_ref = ww, functional_keywords_ref = fk,
           non_functional_keywords_ref = nk \<rparr>)))"

text \<open>The entries, as the source writes them.\<close>

definition Longitud_error :: error_entry where
  "Longitud_error =
     \<lparr> err_type = Longitud_Insuficiente,
       err_description = cps ''El requerimiento es demasiado corto para ser significativo.'',
       err_suggestion =
         cps ''Expanda su requerimiento para incluir m'' @ [0xE1]
         @ cps ''s detalles espec'' @ [0xED] @ cps ''ficos.'' \<rparr>"

definition Ambiguedad_error :: "ustr \<Rightarrow> error_entry" where
  "Ambiguedad_error joined =
     \<lparr> err_type = Ambiguedad,
       err_description = cps ''Se encontraron palabras ambiguas: '' @ joined,
       err_suggestion =
         cps ''Reemplace palabras vagas con t'' @ [0xE9] @ cps ''rminos precisos y concretos.'' \<rparr>"

definition Palabras_Clave_error :: "ustr \<Rightarrow> error_entry" where
  "Palabras_Clave_error joined =
     \<lparr> err_type = Ausencia_de_Palabras_Clave,
       err_description =
         cps ''No se encontraron palabras caracter'' @ [0xED]
         @ cps ''sticas del tipo de requerimiento.'',
       err_suggestion = cps ''Incluya palabras como: '' @ joined \<rparr>"

definition Especificidad_error :: error_entry where
  "Especificidad_error =
     \<lparr> err_type = Falta_de_Especificidad,
       err_description =
         cps ''El requerimiento carece de verbos o sustantivos espec'' @ [0xED]
         @ cps ''ficos.'',
       err_suggestion =
         cps ''Defina claramente la acci'' @ [0xF3]
         @ cps ''n (verbo) y el objeto (sustantivo) del requerimiento.'' \<rparr>"

definition Medibilidad_suggestion :: suggestion_entry where
  "Medibilidad_suggestion =
     \<lparr> sug_type = Medibilidad,
       sug_description =
         cps ''No se detectaron m'' @ [0xE9] @ cps ''tricas espec'' @ [0xED] @ cps ''ficas.'',
       sug_recommendation =
         cps ''Considere agregar m'' @ [0xE9] @ cps ''tricas o criterios de aceptaci''
         @ [0xF3] @ cps ''n medibles.'' \<rparr>"

text \<open>
  \<open>validation_result['is_valid'] = False\<close> followed by
  \<open>validation_result['errors'].append(...)\<close>.
\<close>

definition record_error_stmt :: "error_entry \<Rightarrow> dict \<Rightarrow> dict action" where
  "record_error_stmt e validation_result =
     (let validation_result = validation_result(''is_valid'' \<mapsto> VBool False)
      in then_do (lift (getitem validation_result ''errors'')) (\<lambda>errors_list.
         then_do (append_to errors_list (ErrorEntry e)) (\<lambda>_.
         ret validation_result)))"

definition length_stmt :: "unicode_db \<Rightarrow> ustr \<Rightarrow> dict \<Rightarrow> dict action" where
  "length_stmt u requirement validation_result =
     (if length (split u requirement) < 5
      then record_error_stmt Longitud_error validation_result
      else ret validation_result)"

definition ambiguity_stmt :: "validator_obj \<Rightarrow> ustr \<Rightarrow> dict \<Rightarrow> dict action" where
  "ambiguity_stmt self normalized_req validation_result =
     then_do (read_list (weak_words_ref self)) (\<lambda>weak_words_list.
     then_do (lift (items_in weak_words_list normalized_req)) (\<lambda>ambiguous_words_found.
     if ambiguous_words_found \<noteq> []
     then then_do (lift (join_items (cps '', '') ambiguous_words_found)) (\<lambda>joined.
          record_error_stmt (Ambiguedad_error joined) validation_result)
     else ret validation_result))"

definition keyword_stmt :: "validator_obj \<Rightarrow> bool \<Rightarrow> ustr \<Rightarrow> dict \<Rightarrow> dict action" where
  "keyword_stmt self is_functional normalized_req validation_result =
     (let keywords = (if is_functional then functional_keywords_ref self
                      else non_functional_keywords_ref self)
      in then_do (read_list keywords) (\<lambda>keywords_list.
         then_do (lift (any_in keywords_list normalized_req)) (\<lambda>has_keywords.
         if \<not> has_keywords
         then then_do (read_list keywords) (\<lambda>keywords_list.
              then_do (lift (join_items (cps '', '') (take 3 keywords_list))) (\<lambda>joined.
              record_error_stmt (Palabras_Clave_error joined) validation_result))
         else ret validation_result)))"

definition specificity_stmt :: "validator_obj \<Rightarrow> ustr \<Rightarrow> dict \<Rightarrow> dict action" where
  "specificity_stmt self requirement validation_result =
     (case nlp_attr self of
        None \<Rightarrow> ret validation_result
      | Some tag \<Rightarrow>
          then_do (lift (case tag requirement of Inl e \<Rightarrow> Inl (Raised e) | Inr doc \<Rightarrow> Inr doc))
            (\<lambda>doc.
          if length (verbs doc) = 0 \<or> length (nouns doc) < 2
          then record_error_stmt Especificidad_error validation_result
          else ret validation_result))"

definition metrics_stmt :: "unicode_db \<Rightarrow> bool \<Rightarrow> ustr \<Rightarrow> dict \<Rightarrow> dict action" where
  "metrics_stmt u is_functional requirement validation_result =
     (if \<not> has_metrics u requirement \<and> is_functional
      then then_do (lift (getitem validation_result ''suggestions'')) (\<lambda>suggestions_list.
           then_do (append_to suggestions_list (SuggestionEntry Medibilidad_suggestion)) (\<lambda>_.
           ret validation_result))
      else ret validation_result)"

definition validate_requirement_obj ::
  "unicode_db \<Rightarrow> validator_obj \<Rightarrow> ustr \<Rightarrow> bool \<Rightarrow> dict action" where
  "validate_requirement_obj u self requirement0 is_functional =
     (let requirement = strip u requirement0
      in then_do (lift (normalize_text_obj u requirement)) (\<lambda>normalized_req.
         then_do (new_list []) (\<lambda>errors_list.
         then_do (new_list []) (\<lambda>suggestions_list.
         then_do (length_stmt u requirement
                    [''original_text'' \<mapsto> VStr requirement, ''is_valid'' \<mapsto> VBool True,
                     ''errors'' \<mapsto> VRef errors_list,
                     ''suggestions'' \<mapsto> VRef suggestions_list]) (\<lambda>validation_result.
         then_do (ambiguity_stmt self normalized_req validation_result) (\<lambda>validation_result.
         then_do (keyword_stmt self is_functional normalized_req validation_result)
           (\<lambda>validation_result.
         then_do (specificity_stmt self requirement validation_result) (\<lambda>validation_result.
         metrics_stmt u is_functional requirement validation_result))))))))"

text \<open>
  Reading a returned dictionary through the store gives a report, when the
  dictionary has the four keys and its two lists hold entries of the right kind.
\<close>

fun error_entries :: "item list \<Rightarrow> error_entry list option" where
  "error_entries [] = Some []"
| "error_entries (ErrorEntry e # xs) = map_option ((#) e) (error_entries xs)"
| "error_entries (_ # xs) = None"

fun suggestion_entries :: "item list \<Rightarrow> suggestion_entry list option" where
  "suggestion_entries [] = Some []"
| "suggestion_entries (SuggestionEntry s # xs) = map_option ((#) s) (suggestion_entries xs)"
| "suggestion_entries (_ # xs) = None"

definition report_of :: "store \<Rightarrow> dict \<Rightarrow> report option" where
  "report_of st d =
     (case (d ''original_text'', d ''is_valid'', d ''errors'', d ''suggestions'') of
        (Some (VStr t), Some (VBool b), Some (VRef ea), Some (VRef sa)) \<Rightarrow>
          (case (error_entries (cells st ea), suggestion_entries (cells st sa)) of
             (Some es, Some ss) \<Rightarrow>
               Some \<lparr> original_text = t, is_valid = b, errors = es, suggestions = ss \<rparr>
           | _ \<Rightarrow> None)
      | _ \<Rightarrow> None)"

text \<open>What a call gives its caller: the exception, or the report as it reads now.\<close>

definition outcome :: "(py_error + dict) \<times> store \<Rightarrow> py_error + report option" where
  "outcome c = (case c of (Inl e, st) \<Rightarrow> Inl e | (Inr d, st) \<Rightarrow> Inr (report_of st d))"

text \<open>
  The state in which \<open>__init__\<close> leaves the validator: its three tables are lists
  in use, of strings only.
\<close>

definition is_Str :: "item \<Rightarrow> bool" where
  "is_Str x = (case x of Str w \<Rightarrow> True | _ \<Rightarrow> False)"

definition the_Str :: "item \<Rightarrow> ustr" where
  "the_Str x = (case x of Str w \<Rightarrow> w | _ \<Rightarrow> [])"

definition validator_ok :: "store \<Rightarrow> validator_obj \<Rightarrow> bool" where
  "validator_ok st self =
     (weak_words_ref self < fresh st \<and> functional_keywords_ref self < fresh st
      \<and> non_functional_keywords_ref self < fresh st
      \<and> list_all is_Str (cells st (weak_words_ref self))
      \<and> list_all is_Str (cells st (functional_keywords_ref self))
      \<and> list_all is_Str (cells st (non_functional_keywords_ref self)))"

text \<open>The validator of the first reading that a validator object stands for.\<close>

definition validator_of :: "store \<Rightarrow> validator_obj \<Rightarrow> validator" where
  "validator_of st self =
     \<lparr> nlp = nlp_attr self,
       weak_words = map the_Str (cells st (weak_words_ref self)),
       functional_keywords = map the_Str (cells st (functional_keywords_ref self)),
       non_functional_keywords = map the_Str (cells st (non_functional_keywords_ref self)) \<rparr>"

definition empty_store :: store where
  "empty_store = \<lparr> cells = (\<lambda>a. []), fresh = 0 \<rparr>"

text \<open>
  A dictionary under construction holds a report: its four keys are bound, its two
  lists are different objects, and they hold the entries of the report.
\<close>

definition holds_report :: "addr \<Rightarrow> addr \<Rightarrow> store \<Rightarrow> dict \<Rightarrow> report \<Rightarrow> bool" where
  "holds_report ea sa st d r =
     (ea \<noteq> sa
      \<and> d ''original_text'' = Some (VStr (original_text r))
      \<and> d ''is_valid'' = Some (VBool (is_valid r))
      \<and> d ''errors'' = Some (VRef ea)
      \<and> d ''suggestions'' = Some (VRef sa)
      \<and> cells st ea = map ErrorEntry (errors r)
      \<and> cells st sa = map SuggestionEntry (suggestions r))"

text \<open>The objects that were in use before are what they were.\<close>

definition unchanged_below :: "addr \<Rightarrow> store \<Rightarrow> store \<Rightarrow> bool" where
  "unchanged_below n st st' = (\<forall>a<n. cells st' a = cells st a)"

section \<open>Properties of the string operations\<close>

lemma startswith_iff_prefix: "startswith s w = prefix w s"
  by (induction s w rule: startswith.induct) auto

lemma str_in_iff_sublist: "str_in w s = sublist w s"
  by (induction s) (simp_all add: startswith_iff_prefix sublist_Cons_right)

lemma str_in_subset: "str_in w s \<Longrightarrow> set w \<subseteq> set s"
  unfolding str_in_iff_sublist by (rule set_mono_sublist)

lemma split_from_words:
  "\<forall>c\<in>set cur. \<not> isspace u c \<Longrightarrow> w \<in> set (split_from u cur s) \<Longrightarrow>
   w \<noteq> [] \<and> (\<forall>c\<in>set w. \<not> isspace u c)"
proof (induction s arbitrary: cur)
  case Nil
  then show ?case by (simp split: if_splits)
next
  case (Cons c s)
  show ?case
  proof (cases "isspace u c")
    case True
    note sp = this
    show ?thesis
    proof (cases "cur = []")
      case True
      with sp Cons.prems have "w \<in> set (split_from u [] s)" by simp
      then show ?thesis using Cons.IH [of "[]"] by simp
    next
      case False
      with sp Cons.prems have "w = cur \<or> w \<in> set (split_from u [] s)" by simp
      then show ?thesis using Cons.IH [of "[]"] Cons.prems(1) False by auto
    qed
  next
    case False
    with Cons.prems have "w \<in> set (split_from u (cur @ [c]) s)" by simp
    moreover have "\<forall>d\<in>set (cur @ [c]). \<not> isspace u d" using False Cons.prems(1) by simp
    ultimately show ?thesis using Cons.IH [of "cur @ [c]"] by blast
  qed
qed

lemma split_words: "w \<in> set (split u s) \<Longrightarrow> w \<noteq> [] \<and> (\<forall>c\<in>set w. \<not> isspace u c)"
  unfolding split_def using split_from_words [of "[]" u w s] by simp

lemma dropWhile_eq_self: "dropWhile P xs = xs \<longleftrightarrow> (xs = [] \<or> \<not> P (hd xs))"
proof (cases xs)
  case Nil
  then show ?thesis by simp
next
  case (Cons a list)
  have "dropWhile P list \<noteq> a # list"
  proof
    assume "dropWhile P list = a # list"
    then have "length (dropWhile P list) = Suc (length list)" by simp
    moreover have "length (dropWhile P list) \<le> length list" by (rule length_dropWhile_le)
    ultimately show False by simp
  qed
  with Cons show ?thesis by simp
qed

lemma strip_eq_self:
  "strip u s = s \<longleftrightarrow> (s = [] \<or> (\<not> isspace u (hd s) \<and> \<not> isspace u (last s)))"
proof (cases "s = []")
  case True
  then show ?thesis by (simp add: strip_def)
next
  case False
  show ?thesis
  proof (cases "isspace u (hd s)")
    case True
    have "length (strip u s) \<le> length (dropWhile (isspace u) s)"
      unfolding strip_def
      using length_dropWhile_le [of "isspace u" "rev (dropWhile (isspace u) s)"] by simp
    moreover have "length (dropWhile (isspace u) s) < length s"
      using True False by (cases s) (auto simp: less_Suc_eq_le length_dropWhile_le)
    ultimately have "strip u s \<noteq> s" by auto
    with True False show ?thesis by simp
  next
    case hdF: False
    then have d: "dropWhile (isspace u) s = s" by (simp add: dropWhile_eq_self)
    have "strip u s = s \<longleftrightarrow> dropWhile (isspace u) (rev s) = rev s"
      unfolding strip_def d by (metis rev_rev_ident)
    also have "\<dots> \<longleftrightarrow> \<not> isspace u (hd (rev s))"
      using False by (simp add: dropWhile_eq_self)
    also have "hd (rev s) = last s" using False by (simp add: hd_rev)
    finally show ?thesis using False hdF by simp
  qed
qed

section \<open>Properties of the checks\<close>

lemma label_distinct:
  "Longitud_Insuficiente \<noteq> Ambiguedad" "Longitud_Insuficiente \<noteq> Ausencia_de_Palabras_Clave"
  "Longitud_Insuficiente \<noteq> Falta_de_Especificidad"
  "Ambiguedad \<noteq> Ausencia_de_Palabras_Clave" "Ambiguedad \<noteq> Falta_de_Especificidad"
  "Ausencia_de_Palabras_Clave \<noteq> Falta_de_Especificidad"
  by (simp_all add: Longitud_Insuficiente_def Ambiguedad_def Ausencia_de_Palabras_Clave_def
      Falta_de_Especificidad_def cps_def)

lemma record_error_simps:
  "is_valid (record_error e r) = False"
  "errors (record_error e r) = errors r @ [e]"
  "suggestions (record_error e r) = suggestions r"
  "original_text (record_error e r) = original_text r"
  by (simp_all add: record_error_def)

lemma record_error_suggestions_update:
  "record_error e (r\<lparr>suggestions := sg\<rparr>) = (record_error e r)\<lparr>suggestions := sg\<rparr>"
  by (simp add: record_error_def)

subsection \<open>What each check does to the report\<close>

lemma length_check_fields:
  "original_text (length_check u q r) = original_text r"
  "suggestions (length_check u q r) = suggestions r"
  "is_valid (length_check u q r) = (is_valid r \<and> \<not> length (split u q) < 5)"
  "map err_type (errors (length_check u q r)) =
     map err_type (errors r) @ (if length (split u q) < 5 then [Longitud_Insuficiente] else [])"
  by (simp_all add: length_check_def record_error_simps)

lemma ambiguity_check_fields:
  "original_text (ambiguity_check v n r) = original_text r"
  "suggestions (ambiguity_check v n r) = suggestions r"
  "is_valid (ambiguity_check v n r) = (is_valid r \<and> ambiguous_words_found v n = [])"
  "map err_type (errors (ambiguity_check v n r)) =
     map err_type (errors r) @ (if ambiguous_words_found v n \<noteq> [] then [Ambiguedad] else [])"
  by (simp_all add: ambiguity_check_def record_error_simps)

lemma keyword_check_fields:
  "original_text (keyword_check v f n r) = original_text r"
  "suggestions (keyword_check v f n r) = suggestions r"
  "is_valid (keyword_check v f n r) = (is_valid r \<and> has_keywords v f n)"
  "map err_type (errors (keyword_check v f n r)) =
     map err_type (errors r) @ (if \<not> has_keywords v f n then [Ausencia_de_Palabras_Clave] else [])"
  by (simp_all add: keyword_check_def record_error_simps)

lemma specificity_check_None:
  "nlp v = None \<Longrightarrow> specificity_check v q r = Inr r"
  by (simp add: specificity_check_def)

lemma specificity_check_Inl:
  "nlp v = Some tag \<Longrightarrow> tag q = Inl e \<Longrightarrow> specificity_check v q r = Inl e"
  by (simp add: specificity_check_def)

lemma specificity_check_Inr:
  "nlp v = Some tag \<Longrightarrow> tag q = Inr doc \<Longrightarrow>
   specificity_check v q r =
     Inr (if length (verbs doc) = 0 \<or> length (nouns doc) < 2
          then record_error
                 \<lparr> err_type = Falta_de_Especificidad,
                   err_description =
                     cps ''El requerimiento carece de verbos o sustantivos espec''
                     @ [0xED] @ cps ''ficos.'',
                   err_suggestion =
                     cps ''Defina claramente la acci'' @ [0xF3]
                     @ cps ''n (verbo) y el objeto (sustantivo) del requerimiento.'' \<rparr> r
          else r)"
  by (simp add: specificity_check_def)

lemma specificity_check_cases:
  assumes "specificity_check v q r = Inr r'"
  obtains (absent) "nlp v = None" "r' = r"
  | (pass) tag doc where "nlp v = Some tag" "tag q = Inr doc"
      "\<not> (length (verbs doc) = 0 \<or> length (nouns doc) < 2)" "r' = r"
  | (fail) tag doc e where "nlp v = Some tag" "tag q = Inr doc"
      "length (verbs doc) = 0 \<or> length (nouns doc) < 2" "r' = record_error e r"
      "err_type e = Falta_de_Especificidad"
proof (cases "nlp v")
  case None
  with assms absent show ?thesis by (simp add: specificity_check_def)
next
  case (Some tag)
  show ?thesis
  proof (cases "tag q")
    case (Inl e)
    with Some assms show ?thesis by (simp add: specificity_check_def)
  next
    case (Inr doc)
    show ?thesis
    proof (cases "length (verbs doc) = 0 \<or> length (nouns doc) < 2")
      case True
      with Some Inr assms show ?thesis
        by (intro fail [of tag doc]) (auto simp: specificity_check_Inr)
    next
      case False
      with Some Inr assms show ?thesis
        by (intro pass [of tag doc]) (auto simp: specificity_check_Inr)
    qed
  qed
qed

lemma specificity_check_fields:
  assumes "specificity_check v q r = Inr r'"
  shows "original_text r' = original_text r"
    and "suggestions r' = suggestions r"
    and "is_valid r' = (is_valid r \<and> errors r' = errors r)"
    and "errors r' = errors r \<or> map err_type (errors r') = map err_type (errors r) @ [Falta_de_Especificidad]"
  using assms by (cases rule: specificity_check_cases; simp add: record_error_simps)+

lemma metrics_check_fields:
  "original_text (metrics_check u f q r) = original_text r"
  "errors (metrics_check u f q r) = errors r"
  "is_valid (metrics_check u f q r) = is_valid r"
  "map sug_type (suggestions (metrics_check u f q r)) =
     map sug_type (suggestions r) @ (if \<not> has_metrics u q \<and> f then [Medibilidad] else [])"
  by (simp_all add: metrics_check_def)


lemma run_checks_Inr:
  assumes "run_checks u v q f r0 = Inr r"
  obtains r3 r4 where
    "r3 = keyword_check v f (normalize_text u q)
            (ambiguity_check v (normalize_text u q) (length_check u q r0))"
    "specificity_check v q r3 = Inr r4" "r = metrics_check u f q r4"
  using assms by (auto simp: run_checks_def Let_def split: sum.splits)

lemma run_checks_valid:
  assumes "run_checks u v q f r0 = Inr r" and "is_valid r0 = (errors r0 = [])"
  shows "is_valid r = (errors r = [])"
proof -
  from assms(1) obtain r3 r4 where
    r3: "r3 = keyword_check v f (normalize_text u q)
            (ambiguity_check v (normalize_text u q) (length_check u q r0))"
    and r4: "specificity_check v q r3 = Inr r4" and r: "r = metrics_check u f q r4"
    by (rule run_checks_Inr)
  have "is_valid (length_check u q r0) = (errors (length_check u q r0) = [])"
    using assms(2) by (simp add: length_check_def record_error_simps)
  then have "is_valid (ambiguity_check v (normalize_text u q) (length_check u q r0))
      = (errors (ambiguity_check v (normalize_text u q) (length_check u q r0)) = [])"
    by (simp add: ambiguity_check_def record_error_simps)
  then have "is_valid r3 = (errors r3 = [])"
    unfolding r3 by (simp add: keyword_check_def record_error_simps)
  with r4 have "is_valid r4 = (errors r4 = [])"
    by (cases rule: specificity_check_cases) (simp_all add: record_error_simps)
  then show ?thesis by (simp add: r metrics_check_fields)
qed

lemma run_checks_total:
  assumes "nlp v = None \<or> (\<exists>tag doc. nlp v = Some tag \<and> tag q = Inr doc)"
  shows "\<exists>r. run_checks u v q f r0 = Inr r"
  using assms
  by (auto simp: run_checks_def Let_def specificity_check_None specificity_check_Inr)

lemma run_checks_raises:
  assumes "nlp v = Some tag" and "tag q = Inl e"
  shows "run_checks u v q f r0 = Inl e"
  using assms by (simp add: run_checks_def Let_def specificity_check_Inl)

lemma run_checks_error_types:
  assumes "run_checks u v q f r0 = Inr r"
  shows "map err_type (errors r) =
     map err_type (errors r0)
     @ (if length (split u q) < 5 then [Longitud_Insuficiente] else [])
     @ (if ambiguous_words_found v (normalize_text u q) \<noteq> [] then [Ambiguedad] else [])
     @ (if \<not> has_keywords v f (normalize_text u q) then [Ausencia_de_Palabras_Clave] else [])
     @ (case nlp v of
          None \<Rightarrow> []
        | Some tag \<Rightarrow>
            (case tag q of
               Inl e \<Rightarrow> []
             | Inr doc \<Rightarrow>
                 if length (verbs doc) = 0 \<or> length (nouns doc) < 2
                 then [Falta_de_Especificidad] else []))"
proof -
  from assms obtain r3 r4 where
    r3: "r3 = keyword_check v f (normalize_text u q)
            (ambiguity_check v (normalize_text u q) (length_check u q r0))"
    and r4: "specificity_check v q r3 = Inr r4" and r: "r = metrics_check u f q r4"
    by (rule run_checks_Inr)
  have e3: "map err_type (errors r3) =
     map err_type (errors r0)
     @ (if length (split u q) < 5 then [Longitud_Insuficiente] else [])
     @ (if ambiguous_words_found v (normalize_text u q) \<noteq> [] then [Ambiguedad] else [])
     @ (if \<not> has_keywords v f (normalize_text u q) then [Ausencia_de_Palabras_Clave] else [])"
    unfolding r3
    by (simp only: keyword_check_fields ambiguity_check_fields length_check_fields append_assoc)
  have er: "errors r = errors r4" by (simp add: r metrics_check_fields)
  from r4 have e4: "map err_type (errors r4) =
     map err_type (errors r3)
     @ (case nlp v of
          None \<Rightarrow> []
        | Some tag \<Rightarrow>
            (case tag q of
               Inl e \<Rightarrow> []
             | Inr doc \<Rightarrow>
                 if length (verbs doc) = 0 \<or> length (nouns doc) < 2
                 then [Falta_de_Especificidad] else []))"
    by (cases rule: specificity_check_cases) (simp_all add: record_error_simps)
  show ?thesis unfolding er e4 e3 by simp
qed

lemma run_checks_other_fields:
  assumes "run_checks u v q f r0 = Inr r"
  shows "original_text r = original_text r0"
    and "map sug_type (suggestions r) =
           map sug_type (suggestions r0) @ (if \<not> has_metrics u q \<and> f then [Medibilidad] else [])"
proof -
  from assms obtain r3 r4 where
    r3: "r3 = keyword_check v f (normalize_text u q)
            (ambiguity_check v (normalize_text u q) (length_check u q r0))"
    and r4: "specificity_check v q r3 = Inr r4" and r: "r = metrics_check u f q r4"
    by (rule run_checks_Inr)
  have "original_text r3 = original_text r0" "suggestions r3 = suggestions r0"
    unfolding r3
    by (simp_all only: keyword_check_fields ambiguity_check_fields length_check_fields)
  moreover have "original_text r4 = original_text r3" "suggestions r4 = suggestions r3"
    using specificity_check_fields [OF r4] by simp_all
  ultimately show "original_text r = original_text r0"
    and "map sug_type (suggestions r) =
           map sug_type (suggestions r0) @ (if \<not> has_metrics u q \<and> f then [Medibilidad] else [])"
    by (simp_all add: r metrics_check_fields)
qed

lemma run_checks_suggestions_update:
  "map_sum id (\<lambda>r. (is_valid r, errors r)) (run_checks u v q f (r0\<lparr>suggestions := sg\<rparr>)) =
   map_sum id (\<lambda>r. (is_valid r, errors r)) (run_checks u v q f r0)"
proof -
  define n where "n = normalize_text u q"
  define r3 where "r3 = keyword_check v f n (ambiguity_check v n (length_check u q r0))"
  have 3: "keyword_check v f n (ambiguity_check v n (length_check u q (r0\<lparr>suggestions := sg\<rparr>)))
      = r3\<lparr>suggestions := sg\<rparr>"
    by (simp add: r3_def keyword_check_def ambiguity_check_def length_check_def
        record_error_suggestions_update)
  have 4: "specificity_check v q (r3\<lparr>suggestions := sg\<rparr>)
      = map_sum id (\<lambda>r. r\<lparr>suggestions := sg\<rparr>) (specificity_check v q r3)"
    by (simp add: specificity_check_def record_error_suggestions_update
        split: option.splits sum.splits)
  have 5: "is_valid (metrics_check u f q (r\<lparr>suggestions := sg\<rparr>)) = is_valid (metrics_check u f q r)"
    "errors (metrics_check u f q (r\<lparr>suggestions := sg\<rparr>)) = errors (metrics_check u f q r)" for r
    by (simp_all add: metrics_check_fields)
  show ?thesis
    unfolding run_checks_def Let_def n_def [symmetric] 3 4 r3_def [symmetric]
    by (cases "specificity_check v q r3") (simp_all add: 5)
qed

lemmas db_simps = latin1_db_def whitespace_def latin1_lower_def latin1_decompose_def
  latin1_decomposition_def

lemma validator_nlp: "nlp (AdvancedRequirementValidator loaded) = loaded"
  by (simp add: AdvancedRequirementValidator_def)

lemma validate_total_None:
  "\<exists>r. validate_requirement u (AdvancedRequirementValidator None) q f = Inr r"
  unfolding validate_requirement_def Let_def
  by (rule run_checks_total) (simp add: validator_nlp)

lemma algo_rapido_words:
  "split latin1_db (strip latin1_db (cps ''algo rapido'')) = [cps ''algo'', cps ''rapido'']"
  by (simp add: split_def strip_def cps_def db_simps)

text \<open>
  C1.  In every report that \<open>validate_requirement\<close> returns, \<open>is_valid\<close> is true
  exactly when \<open>errors\<close> is empty.  The content of \<open>suggestions\<close> has no influence:
  started on two reports that differ only in \<open>suggestions\<close>, the checks end with the
  same \<open>is_valid\<close> and the same \<open>errors\<close> (or raise the same exception).
\<close>

theorem is_valid_iff_no_errors:
  assumes "validate_requirement u v requirement is_functional = Inr r"
  shows "is_valid r = (errors r = []) \<and>
         map_sum id (\<lambda>r. (is_valid r, errors r))
           (run_checks u v (strip u requirement) is_functional (r0\<lparr>suggestions := sg\<rparr>)) =
         map_sum id (\<lambda>r. (is_valid r, errors r))
           (run_checks u v (strip u requirement) is_functional r0)"
proof
  show "is_valid r = (errors r = [])"
    using assms unfolding validate_requirement_def Let_def
    by (rule run_checks_valid) simp
  show "map_sum id (\<lambda>r. (is_valid r, errors r))
           (run_checks u v (strip u requirement) is_functional (r0\<lparr>suggestions := sg\<rparr>)) =
         map_sum id (\<lambda>r. (is_valid r, errors r))
           (run_checks u v (strip u requirement) is_functional r0)"
    by (rule run_checks_suggestions_update)
qed

theorem is_valid_iff_no_errors_witness:
  "\<exists>r. validate_requirement latin1_db (AdvancedRequirementValidator None)
          (cps ''algo rapido'') True = Inr r
       \<and> is_valid r = (errors r = []) \<and> \<not> is_valid r"
proof -
  obtain r where r: "validate_requirement latin1_db (AdvancedRequirementValidator None)
          (cps ''algo rapido'') True = Inr r"
    using validate_total_None by blast
  have "is_valid r = (errors r = [])"
    using is_valid_iff_no_errors [OF r] by simp
  moreover have "map err_type (errors r) \<noteq> []"
    using run_checks_error_types [OF r [unfolded validate_requirement_def Let_def]]
    by (simp add: algo_rapido_words)
  ultimately show ?thesis using r by auto
qed

lemma validate_original_text:
  assumes "validate_requirement u v q f = Inr r"
  shows "original_text r = strip u q"
  using run_checks_other_fields(1) [OF assms [unfolded validate_requirement_def Let_def]]
  by simp

lemma validate_error_types:
  assumes "validate_requirement u v q f = Inr r"
  shows "map err_type (errors r) =
     (if length (split u (strip u q)) < 5 then [Longitud_Insuficiente] else [])
     @ (if ambiguous_words_found v (normalize_text u (strip u q)) \<noteq> [] then [Ambiguedad] else [])
     @ (if \<not> has_keywords v f (normalize_text u (strip u q))
        then [Ausencia_de_Palabras_Clave] else [])
     @ (case nlp v of
          None \<Rightarrow> []
        | Some tag \<Rightarrow>
            (case tag (strip u q) of
               Inl e \<Rightarrow> []
             | Inr doc \<Rightarrow>
                 if length (verbs doc) = 0 \<or> length (nouns doc) < 2
                 then [Falta_de_Especificidad] else []))"
  using run_checks_error_types [OF assms [unfolded validate_requirement_def Let_def]]
  by simp

lemma validate_suggestion_types:
  assumes "validate_requirement u v q f = Inr r"
  shows "map sug_type (suggestions r) =
     (if \<not> has_metrics u (strip u q) \<and> f then [Medibilidad] else [])"
  using run_checks_other_fields(2) [OF assms [unfolded validate_requirement_def Let_def]]
  by simp

lemma validate_returns:
  assumes "nlp v = None \<or> (\<exists>tag doc. nlp v = Some tag \<and> tag (strip u q) = Inr doc)"
  shows "\<exists>r. validate_requirement u v q f = Inr r"
  unfolding validate_requirement_def Let_def using assms by (rule run_checks_total)

lemma has_error_iff: "(\<exists>e\<in>set es. err_type e = t) \<longleftrightarrow> t \<in> set (map err_type es)"
  by auto

lemma has_suggestion_iff: "(\<exists>s\<in>set ss. sug_type s = t) \<longleftrightarrow> t \<in> set (map sug_type ss)"
  by auto

lemma space_a_stripped: "strip latin1_db (cps '' a'') = cps ''a''"
  by (simp add: strip_def cps_def db_simps)

text \<open>
  C3 (as amended).  The \<open>original_text\<close> of the report is the submitted string with
  its leading and trailing whitespace removed: the source rebinds \<open>requirement\<close> to
  \<open>requirement.strip()\<close> before it builds the report.  It is the submitted string
  itself exactly when that string is empty or neither begins nor ends with a
  whitespace character.
\<close>

theorem original_text_is_stripped:
  assumes "validate_requirement u v requirement is_functional = Inr r"
  shows "original_text r = strip u requirement \<and>
         (original_text r = requirement \<longleftrightarrow>
            (requirement = [] \<or>
             (\<not> isspace u (hd requirement) \<and> \<not> isspace u (last requirement))))"
  using validate_original_text [OF assms] by (simp add: strip_eq_self)

theorem original_text_is_stripped_witness:
  "\<exists>r. validate_requirement latin1_db (AdvancedRequirementValidator None) (cps '' a'') True
          = Inr r
       \<and> original_text r = cps ''a''
       \<and> isspace latin1_db (hd (cps '' a''))"
proof -
  obtain r where r: "validate_requirement latin1_db (AdvancedRequirementValidator None)
          (cps '' a'') True = Inr r"
    using validate_total_None by blast
  have "original_text r = strip latin1_db (cps '' a'')"
    using original_text_is_stripped [OF r] by simp
  then have "original_text r = cps ''a''" by (simp only: space_a_stripped)
  moreover have "isspace latin1_db (hd (cps '' a''))" by (simp add: cps_def db_simps)
  ultimately show ?thesis using r by blast
qed

text \<open>
  C3 as stated fails: submitted with a leading blank, the text comes back without
  it.
\<close>

theorem original_text_not_verbatim:
  "map_sum id original_text
     (validate_requirement latin1_db (AdvancedRequirementValidator None) (cps '' a'') True)
     = Inr (cps ''a'')
   \<and> cps ''a'' \<noteq> cps '' a''"
proof -
  obtain r where r: "validate_requirement latin1_db (AdvancedRequirementValidator None)
          (cps '' a'') True = Inr r"
    using validate_total_None by blast
  have "original_text r = cps ''a''"
    using validate_original_text [OF r] by (simp only: space_a_stripped)
  moreover have "cps ''a'' \<noteq> cps '' a''" by (simp add: cps_def)
  ultimately show ?thesis by (simp add: r)
qed

text \<open>
  C6.  The \<open>Longitud Insuficiente\<close> error is in the report exactly when the
  stripped text splits into fewer than five words; so it is there for four words and
  not there for five.
\<close>

theorem length_error_iff_fewer_than_five_words:
  assumes "validate_requirement u v requirement is_functional = Inr r"
  shows "((\<exists>e\<in>set (errors r). err_type e = Longitud_Insuficiente) \<longleftrightarrow>
            length (split u (strip u requirement)) < 5)
       \<and> (length (split u (strip u requirement)) = 4 \<longrightarrow>
            (\<exists>e\<in>set (errors r). err_type e = Longitud_Insuficiente))
       \<and> (length (split u (strip u requirement)) = 5 \<longrightarrow>
            \<not> (\<exists>e\<in>set (errors r). err_type e = Longitud_Insuficiente))"
proof -
  have "(\<exists>e\<in>set (errors r). err_type e = Longitud_Insuficiente) \<longleftrightarrow>
            length (split u (strip u requirement)) < 5"
    unfolding has_error_iff validate_error_types [OF assms]
    by (auto simp: label_distinct split: option.splits sum.splits)
  then show ?thesis by simp
qed

lemma four_words:
  "length (split latin1_db (strip latin1_db (cps '' el sistema debe calcular ''))) = 4"
  by (simp add: split_def strip_def cps_def db_simps)

lemma five_words:
  "length (split latin1_db (strip latin1_db (cps ''el sistema debe calcular totales''))) = 5"
  by (simp add: split_def strip_def cps_def db_simps)

theorem length_error_iff_fewer_than_five_words_witness:
  "(\<exists>r. validate_requirement latin1_db (AdvancedRequirementValidator None)
           (cps '' el sistema debe calcular '') True = Inr r
        \<and> length (split latin1_db (strip latin1_db (cps '' el sistema debe calcular ''))) = 4
        \<and> (\<exists>e\<in>set (errors r). err_type e = Longitud_Insuficiente))
   \<and> (\<exists>r. validate_requirement latin1_db (AdvancedRequirementValidator None)
           (cps ''el sistema debe calcular totales'') True = Inr r
        \<and> length (split latin1_db (strip latin1_db (cps ''el sistema debe calcular totales''))) = 5
        \<and> \<not> (\<exists>e\<in>set (errors r). err_type e = Longitud_Insuficiente))"
proof
  obtain r where r: "validate_requirement latin1_db (AdvancedRequirementValidator None)
           (cps '' el sistema debe calcular '') True = Inr r"
    using validate_total_None by blast
  from length_error_iff_fewer_than_five_words [OF r] four_words
  have "\<exists>e\<in>set (errors r). err_type e = Longitud_Insuficiente" by blast
  with r four_words
  show "\<exists>r. validate_requirement latin1_db (AdvancedRequirementValidator None)
           (cps '' el sistema debe calcular '') True = Inr r
        \<and> length (split latin1_db (strip latin1_db (cps '' el sistema debe calcular ''))) = 4
        \<and> (\<exists>e\<in>set (errors r). err_type e = Longitud_Insuficiente)"
    by blast
next
  obtain r where r: "validate_requirement latin1_db (AdvancedRequirementValidator None)
           (cps ''el sistema debe calcular totales'') True = Inr r"
    using validate_total_None by blast
  from length_error_iff_fewer_than_five_words [OF r] five_words
  have "\<not> (\<exists>e\<in>set (errors r). err_type e = Longitud_Insuficiente)" by blast
  with r five_words
  show "\<exists>r. validate_requirement latin1_db (AdvancedRequirementValidator None)
           (cps ''el sistema debe calcular totales'') True = Inr r
        \<and> length (split latin1_db (strip latin1_db (cps ''el sistema debe calcular totales''))) = 5
        \<and> \<not> (\<exists>e\<in>set (errors r). err_type e = Longitud_Insuficiente)"
    by blast
qed

lemma sample_tagger_returns: "\<exists>doc. sample_tagger text = Inr doc"
  by (simp add: sample_tagger_def)

text \<open>The only way out without a report is the exception of the tagger.\<close>

lemma validate_requirement_raises_iff:
  "validate_requirement u v q f = Inl e \<longleftrightarrow>
     (\<exists>tag. nlp v = Some tag \<and> tag (strip u q) = Inl e)"
  by (auto simp: validate_requirement_def run_checks_def Let_def specificity_check_def
      split: option.splits sum.splits)

lemma suggestion_label_distinct: "Falta_de_Especificidad \<noteq> Medibilidad"
  "Longitud_Insuficiente \<noteq> Medibilidad" "Ambiguedad \<noteq> Medibilidad"
  "Ausencia_de_Palabras_Clave \<noteq> Medibilidad"
  by (simp_all add: Longitud_Insuficiente_def Ambiguedad_def Ausencia_de_Palabras_Clave_def
      Falta_de_Especificidad_def Medibilidad_def cps_def)

lemma tokens_with_pos: "length (filter (\<lambda>token. pos token = t) doc) = count_list (map pos doc) t"
  by (induction doc) simp_all

lemma verbs_count: "length (verbs doc) = count_list (map pos doc) (cps ''VERB'')"
  unfolding verbs_def by (rule tokens_with_pos)

lemma nouns_count: "length (nouns doc) = count_list (map pos doc) (cps ''NOUN'')"
  unfolding nouns_def by (rule tokens_with_pos)

text \<open>
  C4.  Without a tagger the report holds no \<open>Falta de Especificidad\<close> finding, among
  the errors or among the suggestions, whatever the text.  With a tagger that returns
  a document for the stripped (not normalized) text, the error is recorded exactly
  when the tag \<open>VERB\<close> occurs on no token of the document or the tag \<open>NOUN\<close> on
  fewer than two.
\<close>

theorem specificity_error_iff:
  "(nlp v = None \<longrightarrow>
      (\<exists>r. validate_requirement u v requirement is_functional = Inr r
         \<and> \<not> (\<exists>e\<in>set (errors r). err_type e = Falta_de_Especificidad)
         \<and> \<not> (\<exists>s\<in>set (suggestions r). sug_type s = Falta_de_Especificidad)))
   \<and> (nlp v = Some tag \<and> tag (strip u requirement) = Inr doc \<longrightarrow>
      (\<exists>r. validate_requirement u v requirement is_functional = Inr r
         \<and> ((\<exists>e\<in>set (errors r). err_type e = Falta_de_Especificidad) \<longleftrightarrow>
              (count_list (map pos doc) (cps ''VERB'') = 0
               \<or> count_list (map pos doc) (cps ''NOUN'') < 2))
         \<and> \<not> (\<exists>s\<in>set (suggestions r). sug_type s = Falta_de_Especificidad)))"
proof (intro conjI impI)
  assume n: "nlp v = None"
  then obtain r where r: "validate_requirement u v requirement is_functional = Inr r"
    using validate_returns [of v u requirement is_functional] by blast
  have "\<not> (\<exists>e\<in>set (errors r). err_type e = Falta_de_Especificidad)"
    unfolding has_error_iff validate_error_types [OF r]
    by (simp add: n label_distinct label_distinct [symmetric])
  moreover have "\<not> (\<exists>s\<in>set (suggestions r). sug_type s = Falta_de_Especificidad)"
    unfolding has_suggestion_iff validate_suggestion_types [OF r]
    by (simp add: suggestion_label_distinct)
  ultimately show "\<exists>r. validate_requirement u v requirement is_functional = Inr r
         \<and> \<not> (\<exists>e\<in>set (errors r). err_type e = Falta_de_Especificidad)
         \<and> \<not> (\<exists>s\<in>set (suggestions r). sug_type s = Falta_de_Especificidad)"
    using r by blast
next
  assume t: "nlp v = Some tag \<and> tag (strip u requirement) = Inr doc"
  then obtain r where r: "validate_requirement u v requirement is_functional = Inr r"
    using validate_returns [of v u requirement is_functional] by blast
  have "(\<exists>e\<in>set (errors r). err_type e = Falta_de_Especificidad) \<longleftrightarrow>
              (length (verbs doc) = 0 \<or> length (nouns doc) < 2)"
    unfolding has_error_iff validate_error_types [OF r]
    using t by (simp add: label_distinct label_distinct [symmetric])
  then have "(\<exists>e\<in>set (errors r). err_type e = Falta_de_Especificidad) \<longleftrightarrow>
              (count_list (map pos doc) (cps ''VERB'') = 0
               \<or> count_list (map pos doc) (cps ''NOUN'') < 2)"
    by (simp only: verbs_count nouns_count)
  moreover have "\<not> (\<exists>s\<in>set (suggestions r). sug_type s = Falta_de_Especificidad)"
    unfolding has_suggestion_iff validate_suggestion_types [OF r]
    by (simp add: suggestion_label_distinct)
  ultimately show "\<exists>r. validate_requirement u v requirement is_functional = Inr r
         \<and> ((\<exists>e\<in>set (errors r). err_type e = Falta_de_Especificidad) \<longleftrightarrow>
              (count_list (map pos doc) (cps ''VERB'') = 0
               \<or> count_list (map pos doc) (cps ''NOUN'') < 2))
         \<and> \<not> (\<exists>s\<in>set (suggestions r). sug_type s = Falta_de_Especificidad)"
    using r by blast
qed

text \<open>
  Four runs: no tagger; a verb, a determiner and two nouns (no error); a verb, a
  determiner and one noun (error); a determiner and two nouns, no verb (error).
\<close>

lemma sample_docs:
  "sample_tagger (strip latin1_db (cps ''calcular el total mensual''))
     = Inr [\<lparr>pos = cps ''VERB''\<rparr>, \<lparr>pos = cps ''DET''\<rparr>, \<lparr>pos = cps ''NOUN''\<rparr>,
            \<lparr>pos = cps ''NOUN''\<rparr>]"
  "sample_tagger (strip latin1_db (cps ''calcular el total''))
     = Inr [\<lparr>pos = cps ''VERB''\<rparr>, \<lparr>pos = cps ''DET''\<rparr>, \<lparr>pos = cps ''NOUN''\<rparr>]"
  "sample_tagger (strip latin1_db (cps ''el total mensual''))
     = Inr [\<lparr>pos = cps ''DET''\<rparr>, \<lparr>pos = cps ''NOUN''\<rparr>, \<lparr>pos = cps ''NOUN''\<rparr>]"
  by (simp_all add: sample_tagger_def split_def strip_def cps_def db_simps)

lemma sample_counts:
  "count_list (map pos [\<lparr>pos = cps ''VERB''\<rparr>, \<lparr>pos = cps ''DET''\<rparr>, \<lparr>pos = cps ''NOUN''\<rparr>,
            \<lparr>pos = cps ''NOUN''\<rparr>]) (cps ''VERB'') = 1"
  "count_list (map pos [\<lparr>pos = cps ''VERB''\<rparr>, \<lparr>pos = cps ''DET''\<rparr>, \<lparr>pos = cps ''NOUN''\<rparr>,
            \<lparr>pos = cps ''NOUN''\<rparr>]) (cps ''NOUN'') = 2"
  "count_list (map pos [\<lparr>pos = cps ''VERB''\<rparr>, \<lparr>pos = cps ''DET''\<rparr>, \<lparr>pos = cps ''NOUN''\<rparr>])
     (cps ''VERB'') = 1"
  "count_list (map pos [\<lparr>pos = cps ''VERB''\<rparr>, \<lparr>pos = cps ''DET''\<rparr>, \<lparr>pos = cps ''NOUN''\<rparr>])
     (cps ''NOUN'') = 1"
  "count_list (map pos [\<lparr>pos = cps ''DET''\<rparr>, \<lparr>pos = cps ''NOUN''\<rparr>, \<lparr>pos = cps ''NOUN''\<rparr>])
     (cps ''VERB'') = 0"
  "count_list (map pos [\<lparr>pos = cps ''DET''\<rparr>, \<lparr>pos = cps ''NOUN''\<rparr>, \<lparr>pos = cps ''NOUN''\<rparr>])
     (cps ''NOUN'') = 2"
  by (simp_all add: cps_def)

theorem specificity_error_iff_witness:
  "(\<exists>r. validate_requirement latin1_db (AdvancedRequirementValidator None)
           (cps ''calcular el total'') True = Inr r
        \<and> \<not> (\<exists>e\<in>set (errors r). err_type e = Falta_de_Especificidad))
   \<and> (\<exists>r. validate_requirement latin1_db (AdvancedRequirementValidator (Some sample_tagger))
           (cps ''calcular el total mensual'') True = Inr r
        \<and> sample_tagger (strip latin1_db (cps ''calcular el total mensual''))
            = Inr [\<lparr>pos = cps ''VERB''\<rparr>, \<lparr>pos = cps ''DET''\<rparr>, \<lparr>pos = cps ''NOUN''\<rparr>,
                   \<lparr>pos = cps ''NOUN''\<rparr>]
        \<and> \<not> (\<exists>e\<in>set (errors r). err_type e = Falta_de_Especificidad))
   \<and> (\<exists>r. validate_requirement latin1_db (AdvancedRequirementValidator (Some sample_tagger))
           (cps ''calcular el total'') True = Inr r
        \<and> sample_tagger (strip latin1_db (cps ''calcular el total''))
            = Inr [\<lparr>pos = cps ''VERB''\<rparr>, \<lparr>pos = cps ''DET''\<rparr>, \<lparr>pos = cps ''NOUN''\<rparr>]
        \<and> (\<exists>e\<in>set (errors r). err_type e = Falta_de_Especificidad))
   \<and> (\<exists>r. validate_requirement latin1_db (AdvancedRequirementValidator (Some sample_tagger))
           (cps ''el total mensual'') True = Inr r
        \<and> sample_tagger (strip latin1_db (cps ''el total mensual''))
            = Inr [\<lparr>pos = cps ''DET''\<rparr>, \<lparr>pos = cps ''NOUN''\<rparr>, \<lparr>pos = cps ''NOUN''\<rparr>]
        \<and> (\<exists>e\<in>set (errors r). err_type e = Falta_de_Especificidad))"
proof (intro conjI)
  show "\<exists>r. validate_requirement latin1_db (AdvancedRequirementValidator None)
           (cps ''calcular el total'') True = Inr r
        \<and> \<not> (\<exists>e\<in>set (errors r). err_type e = Falta_de_Especificidad)"
    using specificity_error_iff [of "AdvancedRequirementValidator None" latin1_db
        "cps ''calcular el total''" True]
    by (simp only: validator_nlp) blast
  have t: "nlp (AdvancedRequirementValidator (Some sample_tagger)) = Some sample_tagger"
    by (simp only: validator_nlp)
  from specificity_error_iff [of "AdvancedRequirementValidator (Some sample_tagger)"
        latin1_db "cps ''calcular el total mensual''" True sample_tagger
        "[\<lparr>pos = cps ''VERB''\<rparr>, \<lparr>pos = cps ''DET''\<rparr>, \<lparr>pos = cps ''NOUN''\<rparr>,
          \<lparr>pos = cps ''NOUN''\<rparr>]"]
  show "\<exists>r. validate_requirement latin1_db (AdvancedRequirementValidator (Some sample_tagger))
           (cps ''calcular el total mensual'') True = Inr r
        \<and> sample_tagger (strip latin1_db (cps ''calcular el total mensual''))
            = Inr [\<lparr>pos = cps ''VERB''\<rparr>, \<lparr>pos = cps ''DET''\<rparr>, \<lparr>pos = cps ''NOUN''\<rparr>,
                   \<lparr>pos = cps ''NOUN''\<rparr>]
        \<and> \<not> (\<exists>e\<in>set (errors r). err_type e = Falta_de_Especificidad)"
    unfolding t sample_docs sample_counts by auto
  from specificity_error_iff [of "AdvancedRequirementValidator (Some sample_tagger)"
        latin1_db "cps ''calcular el total''" True sample_tagger
        "[\<lparr>pos = cps ''VERB''\<rparr>, \<lparr>pos = cps ''DET''\<rparr>, \<lparr>pos = cps ''NOUN''\<rparr>]"]
  show "\<exists>r. validate_requirement latin1_db (AdvancedRequirementValidator (Some sample_tagger))
           (cps ''calcular el total'') True = Inr r
        \<and> sample_tagger (strip latin1_db (cps ''calcular el total''))
            = Inr [\<lparr>pos = cps ''VERB''\<rparr>, \<lparr>pos = cps ''DET''\<rparr>, \<lparr>pos = cps ''NOUN''\<rparr>]
        \<and> (\<exists>e\<in>set (errors r). err_type e = Falta_de_Especificidad)"
    unfolding t sample_docs sample_counts by auto
  from specificity_error_iff [of "AdvancedRequirementValidator (Some sample_tagger)"
        latin1_db "cps ''el total mensual''" True sample_tagger
        "[\<lparr>pos = cps ''DET''\<rparr>, \<lparr>pos = cps ''NOUN''\<rparr>, \<lparr>pos = cps ''NOUN''\<rparr>]"]
  show "\<exists>r. validate_requirement latin1_db (AdvancedRequirementValidator (Some sample_tagger))
           (cps ''el total mensual'') True = Inr r
        \<and> sample_tagger (strip latin1_db (cps ''el total mensual''))
            = Inr [\<lparr>pos = cps ''DET''\<rparr>, \<lparr>pos = cps ''NOUN''\<rparr>, \<lparr>pos = cps ''NOUN''\<rparr>]
        \<and> (\<exists>e\<in>set (errors r). err_type e = Falta_de_Especificidad)"
    unfolding t sample_docs sample_counts by auto
qed

text \<open>
  C5.  A \<open>Medibilidad\<close> finding is in the report exactly when the requirement is
  functional and none of the five metric indicators occurs, as a contiguous run, in
  the lower-cased (not accent-stripped) text.  It is a suggestion, never an error:
  the check that adds it changes neither \<open>is_valid\<close> nor \<open>errors\<close>.  The report of
  a non-functional requirement has no suggestions at all.
\<close>

theorem measurability_suggestion_iff:
  assumes "validate_requirement u v requirement is_functional = Inr r"
  shows "((\<exists>s\<in>set (suggestions r). sug_type s = Medibilidad) \<longleftrightarrow>
            (is_functional \<and>
             \<not> (\<exists>metric\<in>set [cps ''m'' @ [0xE1] @ cps ''ximo'', cps ''m'' @ [0xED] @ cps ''nimo'',
                               cps ''al menos'', cps ''no m'' @ [0xE1] @ cps ''s de'', cps ''%''].
                   sublist metric (lower u (strip u requirement)))))
       \<and> \<not> (\<exists>e\<in>set (errors r). err_type e = Medibilidad)
       \<and> is_valid (metrics_check u is_functional q r0) = is_valid r0
       \<and> errors (metrics_check u is_functional q r0) = errors r0
       \<and> (\<not> is_functional \<longrightarrow> suggestions r = []
            \<and> metrics_check u is_functional q r0 = r0)"
proof (intro conjI)
  show "(\<exists>s\<in>set (suggestions r). sug_type s = Medibilidad) \<longleftrightarrow>
            (is_functional \<and>
             \<not> (\<exists>metric\<in>set [cps ''m'' @ [0xE1] @ cps ''ximo'', cps ''m'' @ [0xED] @ cps ''nimo'',
                               cps ''al menos'', cps ''no m'' @ [0xE1] @ cps ''s de'', cps ''%''].
                   sublist metric (lower u (strip u requirement))))"
    unfolding has_suggestion_iff validate_suggestion_types [OF assms]
      str_in_iff_sublist [symmetric]
    by (auto simp: has_metrics_def list_ex_iff metrics_indicators_def)
  show "\<not> (\<exists>e\<in>set (errors r). err_type e = Medibilidad)"
    unfolding has_error_iff validate_error_types [OF assms]
    by (auto simp: suggestion_label_distinct [symmetric] split: option.splits sum.splits)
  show "is_valid (metrics_check u is_functional q r0) = is_valid r0"
    and "errors (metrics_check u is_functional q r0) = errors r0"
    by (simp_all add: metrics_check_fields)
  show "\<not> is_functional \<longrightarrow> suggestions r = [] \<and> metrics_check u is_functional q r0 = r0"
    using validate_suggestion_types [OF assms]
    by (cases is_functional) (simp_all add: metrics_check_def)
qed

text \<open>
  Five runs: no indicator (suggestion); \<open>AL MENOS\<close> in capitals (none, the text is
  lower-cased); \<open>maximo\<close> without its accent (suggestion, the accent is not
  stripped); the same word with its accent (none); a non-functional requirement.
\<close>

lemma metric_examples:
  "\<not> (\<exists>metric\<in>set [cps ''m'' @ [0xE1] @ cps ''ximo'', cps ''m'' @ [0xED] @ cps ''nimo'',
                     cps ''al menos'', cps ''no m'' @ [0xE1] @ cps ''s de'', cps ''%''].
         sublist metric (lower latin1_db (strip latin1_db (cps ''calcular totales''))))"
  "\<exists>metric\<in>set [cps ''m'' @ [0xE1] @ cps ''ximo'', cps ''m'' @ [0xED] @ cps ''nimo'',
                  cps ''al menos'', cps ''no m'' @ [0xE1] @ cps ''s de'', cps ''%''].
      sublist metric (lower latin1_db (strip latin1_db (cps ''Calcular AL MENOS dos totales'')))"
  "\<not> (\<exists>metric\<in>set [cps ''m'' @ [0xE1] @ cps ''ximo'', cps ''m'' @ [0xED] @ cps ''nimo'',
                     cps ''al menos'', cps ''no m'' @ [0xE1] @ cps ''s de'', cps ''%''].
         sublist metric (lower latin1_db (strip latin1_db (cps ''tiempo maximo''))))"
  "\<exists>metric\<in>set [cps ''m'' @ [0xE1] @ cps ''ximo'', cps ''m'' @ [0xED] @ cps ''nimo'',
                  cps ''al menos'', cps ''no m'' @ [0xE1] @ cps ''s de'', cps ''%''].
      sublist metric
        (lower latin1_db (strip latin1_db (cps ''tiempo m'' @ [0xE1] @ cps ''ximo'')))"
  by (simp_all add: str_in_iff_sublist [symmetric] strip_def cps_def db_simps)

theorem measurability_suggestion_iff_witness:
  "(\<exists>r. validate_requirement latin1_db (AdvancedRequirementValidator None)
           (cps ''calcular totales'') True = Inr r
        \<and> (\<exists>s\<in>set (suggestions r). sug_type s = Medibilidad)
        \<and> \<not> (\<exists>e\<in>set (errors r). err_type e = Medibilidad))
   \<and> (\<exists>r. validate_requirement latin1_db (AdvancedRequirementValidator None)
           (cps ''Calcular AL MENOS dos totales'') True = Inr r
        \<and> \<not> (\<exists>s\<in>set (suggestions r). sug_type s = Medibilidad))
   \<and> (\<exists>r. validate_requirement latin1_db (AdvancedRequirementValidator None)
           (cps ''tiempo maximo'') True = Inr r
        \<and> (\<exists>s\<in>set (suggestions r). sug_type s = Medibilidad))
   \<and> (\<exists>r. validate_requirement latin1_db (AdvancedRequirementValidator None)
           (cps ''tiempo m'' @ [0xE1] @ cps ''ximo'') True = Inr r
        \<and> \<not> (\<exists>s\<in>set (suggestions r). sug_type s = Medibilidad))
   \<and> (\<exists>r. validate_requirement latin1_db (AdvancedRequirementValidator None)
           (cps ''calcular totales'') False = Inr r
        \<and> suggestions r = [])"
proof (intro conjI)
  obtain r where r: "validate_requirement latin1_db (AdvancedRequirementValidator None)
           (cps ''calcular totales'') True = Inr r"
    using validate_total_None by blast
  from measurability_suggestion_iff [OF r] metric_examples(1)
  have "(\<exists>s\<in>set (suggestions r). sug_type s = Medibilidad)
        \<and> \<not> (\<exists>e\<in>set (errors r). err_type e = Medibilidad)"
    by simp
  with r show "\<exists>r. validate_requirement latin1_db (AdvancedRequirementValidator None)
           (cps ''calcular totales'') True = Inr r
        \<and> (\<exists>s\<in>set (suggestions r). sug_type s = Medibilidad)
        \<and> \<not> (\<exists>e\<in>set (errors r). err_type e = Medibilidad)"
    by blast
next
  obtain r where r: "validate_requirement latin1_db (AdvancedRequirementValidator None)
           (cps ''Calcular AL MENOS dos totales'') True = Inr r"
    using validate_total_None by blast
  from measurability_suggestion_iff [OF r] metric_examples(2)
  have "\<not> (\<exists>s\<in>set (suggestions r). sug_type s = Medibilidad)" by simp
  with r show "\<exists>r. validate_requirement latin1_db (AdvancedRequirementValidator None)
           (cps ''Calcular AL MENOS dos totales'') True = Inr r
        \<and> \<not> (\<exists>s\<in>set (suggestions r). sug_type s = Medibilidad)"
    by blast
next
  obtain r where r: "validate_requirement latin1_db (AdvancedRequirementValidator None)
           (cps ''tiempo maximo'') True = Inr r"
    using validate_total_None by blast
  from measurability_suggestion_iff [OF r] metric_examples(3)
  have "\<exists>s\<in>set (suggestions r). sug_type s = Medibilidad" by simp
  with r show "\<exists>r. validate_requirement latin1_db (AdvancedRequirementValidator None)
           (cps ''tiempo maximo'') True = Inr r
        \<and> (\<exists>s\<in>set (suggestions r). sug_type s = Medibilidad)"
    by blast
next
  obtain r where r: "validate_requirement latin1_db (AdvancedRequirementValidator None)
           (cps ''tiempo m'' @ [0xE1] @ cps ''ximo'') True = Inr r"
    using validate_total_None by blast
  from measurability_suggestion_iff [OF r] metric_examples(4)
  have "\<not> (\<exists>s\<in>set (suggestions r). sug_type s = Medibilidad)" by simp
  with r show "\<exists>r. validate_requirement latin1_db (AdvancedRequirementValidator None)
           (cps ''tiempo m'' @ [0xE1] @ cps ''ximo'') True = Inr r
        \<and> \<not> (\<exists>s\<in>set (suggestions r). sug_type s = Medibilidad)"
    by blast
next
  obtain r where r: "validate_requirement latin1_db (AdvancedRequirementValidator None)
           (cps ''calcular totales'') False = Inr r"
    using validate_total_None by blast
  from measurability_suggestion_iff [OF r] have "suggestions r = []" by simp
  with r show "\<exists>r. validate_requirement latin1_db (AdvancedRequirementValidator None)
           (cps ''calcular totales'') False = Inr r \<and> suggestions r = []"
    by blast
qed

subsection \<open>The entries that the checks append\<close>

lemma run_checks_new_entries:
  assumes "run_checks u v q f r0 = Inr r" and "e \<in> set (errors r)" and "e \<notin> set (errors r0)"
  shows "err_type e = Ambiguedad \<longrightarrow>
           ambiguous_words_found v (normalize_text u q) \<noteq> [] \<and>
           err_description e =
             cps ''Se encontraron palabras ambiguas: ''
             @ join (cps '', '') (ambiguous_words_found v (normalize_text u q))"
    and "err_type e = Ausencia_de_Palabras_Clave \<longrightarrow>
           err_suggestion e =
             cps ''Incluya palabras como: '' @ join (cps '', '') (take 3 (keywords_of v f))"
proof -
  from assms(1) obtain r3 r4 where
    r3: "r3 = keyword_check v f (normalize_text u q)
            (ambiguity_check v (normalize_text u q) (length_check u q r0))"
    and r4: "specificity_check v q r3 = Inr r4" and r: "r = metrics_check u f q r4"
    by (rule run_checks_Inr)
  have er: "errors r = errors r4" by (simp add: r metrics_check_fields)
  from r4 have "e \<in> set (errors r3) \<or> err_type e = Falta_de_Especificidad"
    using assms(2) unfolding er
    by (cases rule: specificity_check_cases) (auto simp: record_error_simps)
  then have "(err_type e = Ambiguedad \<longrightarrow>
           ambiguous_words_found v (normalize_text u q) \<noteq> [] \<and>
           err_description e =
             cps ''Se encontraron palabras ambiguas: ''
             @ join (cps '', '') (ambiguous_words_found v (normalize_text u q)))
    \<and> (err_type e = Ausencia_de_Palabras_Clave \<longrightarrow>
           err_suggestion e =
             cps ''Incluya palabras como: '' @ join (cps '', '') (take 3 (keywords_of v f)))"
  proof
    assume "e \<in> set (errors r3)"
    with assms(3) show ?thesis
      unfolding r3 keyword_check_def ambiguity_check_def length_check_def
      by (auto simp: record_error_simps label_distinct label_distinct [symmetric]
          split: if_splits)
  next
    assume "err_type e = Falta_de_Especificidad"
    then show ?thesis by (simp add: label_distinct [symmetric])
  qed
  then show "err_type e = Ambiguedad \<longrightarrow>
           ambiguous_words_found v (normalize_text u q) \<noteq> [] \<and>
           err_description e =
             cps ''Se encontraron palabras ambiguas: ''
             @ join (cps '', '') (ambiguous_words_found v (normalize_text u q))"
    and "err_type e = Ausencia_de_Palabras_Clave \<longrightarrow>
           err_suggestion e =
             cps ''Incluya palabras como: '' @ join (cps '', '') (take 3 (keywords_of v f))"
    by simp_all
qed

lemma first_three_functional:
  "take 3 (keywords_of (AdvancedRequirementValidator loaded) True)
     = [cps ''debe'', cps ''deber'' @ [0xED] @ cps ''a'', cps ''tiene que'']"
  "take 3 (keywords_of (AdvancedRequirementValidator loaded) False)
     = [cps ''rendimiento'', cps ''seguridad'', cps ''escalabilidad'']"
  by (simp_all add: keywords_of_def AdvancedRequirementValidator_def)

lemma joined_examples:
  "cps ''Incluya palabras como: ''
     @ join (cps '', '') [cps ''debe'', cps ''deber'' @ [0xED] @ cps ''a'', cps ''tiene que'']
   = cps ''Incluya palabras como: debe, deber'' @ [0xED] @ cps ''a, tiene que''"
  "cps ''Incluya palabras como: ''
     @ join (cps '', '') [cps ''rendimiento'', cps ''seguridad'', cps ''escalabilidad'']
   = cps ''Incluya palabras como: rendimiento, seguridad, escalabilidad''"
  by (simp_all add: cps_def)

text \<open>
  C7.  The keyword check reads \<open>functional_keywords\<close> for a functional requirement
  and \<open>non_functional_keywords\<close> otherwise.  The \<open>Ausencia de Palabras Clave\<close>
  error is in the report exactly when no keyword of that table occurs, as a contiguous
  run, in the normalized text.  Its suggestion is \<open>Incluya palabras como:\<close>
  followed by the first three keywords of that table, in the order of the table,
  with a comma and a blank between them: for the tables of the source,
  \<open>debe, deber\<close>\<open>U+00ED\<close>\<open>a, tiene que\<close> and
  \<open>rendimiento, seguridad, escalabilidad\<close>.
\<close>

theorem keyword_error_iff:
  assumes "validate_requirement u v requirement is_functional = Inr r"
  shows "keywords_of v True = functional_keywords v
       \<and> keywords_of v False = non_functional_keywords v
       \<and> ((\<exists>e\<in>set (errors r). err_type e = Ausencia_de_Palabras_Clave) \<longleftrightarrow>
            \<not> (\<exists>keyword\<in>set (if is_functional then functional_keywords v
                                else non_functional_keywords v).
                  sublist keyword (normalize_text u (strip u requirement))))
       \<and> (\<forall>e\<in>set (errors r). err_type e = Ausencia_de_Palabras_Clave \<longrightarrow>
            err_suggestion e =
              cps ''Incluya palabras como: ''
              @ join (cps '', '') (take 3 (if is_functional then functional_keywords v
                                           else non_functional_keywords v))
            \<and> (\<forall>k1 k2 k3 rest.
                  (if is_functional then functional_keywords v
                   else non_functional_keywords v) = k1 # k2 # k3 # rest \<longrightarrow>
                  err_suggestion e =
                    cps ''Incluya palabras como: '' @ k1 @ cps '', '' @ k2 @ cps '', '' @ k3)
            \<and> (v = AdvancedRequirementValidator loaded \<longrightarrow>
                  err_suggestion e =
                    (if is_functional
                     then cps ''Incluya palabras como: debe, deber'' @ [0xED]
                          @ cps ''a, tiene que''
                     else cps ''Incluya palabras como: rendimiento, seguridad, escalabilidad'')))"
proof (intro conjI ballI impI allI)
  show "keywords_of v True = functional_keywords v"
    and "keywords_of v False = non_functional_keywords v"
    by (simp_all add: keywords_of_def)
  show "(\<exists>e\<in>set (errors r). err_type e = Ausencia_de_Palabras_Clave) \<longleftrightarrow>
            \<not> (\<exists>keyword\<in>set (if is_functional then functional_keywords v
                                else non_functional_keywords v).
                  sublist keyword (normalize_text u (strip u requirement)))"
    unfolding has_error_iff validate_error_types [OF assms] str_in_iff_sublist [symmetric]
    by (auto simp: has_keywords_def keywords_of_def list_ex_iff label_distinct
        label_distinct [symmetric] split: option.splits sum.splits)
  fix e assume e: "e \<in> set (errors r)" "err_type e = Ausencia_de_Palabras_Clave"
  then have s: "err_suggestion e =
      cps ''Incluya palabras como: '' @ join (cps '', '') (take 3 (keywords_of v is_functional))"
    using run_checks_new_entries(2) [OF assms [unfolded validate_requirement_def Let_def], of e]
    by simp
  then show "err_suggestion e =
              cps ''Incluya palabras como: ''
              @ join (cps '', '') (take 3 (if is_functional then functional_keywords v
                                           else non_functional_keywords v))"
    by (simp add: keywords_of_def)
  show "err_suggestion e =
          cps ''Incluya palabras como: '' @ k1 @ cps '', '' @ k2 @ cps '', '' @ k3"
    if "(if is_functional then functional_keywords v else non_functional_keywords v)
          = k1 # k2 # k3 # rest" for k1 k2 k3 rest
    using s that by (simp add: keywords_of_def)
  show "err_suggestion e =
          (if is_functional
           then cps ''Incluya palabras como: debe, deber'' @ [0xED] @ cps ''a, tiene que''
           else cps ''Incluya palabras como: rendimiento, seguridad, escalabilidad'')"
    if "v = AdvancedRequirementValidator loaded"
    unfolding s that
    by (cases is_functional) (simp_all only: first_three_functional joined_examples if_True if_False)
qed

text \<open>
  Four runs, two texts under both flags: a text with a non-functional keyword only,
  and a text with functional keywords only.
\<close>

lemma keyword_texts_normalized:
  "normalize_text latin1_db (strip latin1_db (cps ''Rendimiento alto'')) = cps ''rendimiento alto''"
  "normalize_text latin1_db (strip latin1_db (cps ''El sistema debe calcular''))
     = cps ''el sistema debe calcular''"
  by (simp_all add: normalize_text_def strip_def cps_def db_simps)

lemma keyword_examples:
  "\<not> (\<exists>keyword\<in>set (functional_keywords (AdvancedRequirementValidator None)).
         sublist keyword (cps ''rendimiento alto''))"
  "\<exists>keyword\<in>set (non_functional_keywords (AdvancedRequirementValidator None)).
      sublist keyword (cps ''rendimiento alto'')"
  "\<not> (\<exists>keyword\<in>set (non_functional_keywords (AdvancedRequirementValidator None)).
         sublist keyword (cps ''el sistema debe calcular''))"
  "\<exists>keyword\<in>set (functional_keywords (AdvancedRequirementValidator None)).
      sublist keyword (cps ''el sistema debe calcular'')"
  by (simp_all add: str_in_iff_sublist [symmetric] AdvancedRequirementValidator_def cps_def)

theorem keyword_error_iff_witness:
  "(\<exists>r. validate_requirement latin1_db (AdvancedRequirementValidator None)
           (cps ''Rendimiento alto'') True = Inr r
        \<and> (\<exists>e\<in>set (errors r). err_type e = Ausencia_de_Palabras_Clave)
        \<and> (\<forall>e\<in>set (errors r). err_type e = Ausencia_de_Palabras_Clave \<longrightarrow>
             err_suggestion e =
               cps ''Incluya palabras como: debe, deber'' @ [0xED] @ cps ''a, tiene que''))
   \<and> (\<exists>r. validate_requirement latin1_db (AdvancedRequirementValidator None)
           (cps ''Rendimiento alto'') False = Inr r
        \<and> \<not> (\<exists>e\<in>set (errors r). err_type e = Ausencia_de_Palabras_Clave))
   \<and> (\<exists>r. validate_requirement latin1_db (AdvancedRequirementValidator None)
           (cps ''El sistema debe calcular'') False = Inr r
        \<and> (\<exists>e\<in>set (errors r). err_type e = Ausencia_de_Palabras_Clave)
        \<and> (\<forall>e\<in>set (errors r). err_type e = Ausencia_de_Palabras_Clave \<longrightarrow>
             err_suggestion e =
               cps ''Incluya palabras como: rendimiento, seguridad, escalabilidad''))
   \<and> (\<exists>r. validate_requirement latin1_db (AdvancedRequirementValidator None)
           (cps ''El sistema debe calcular'') True = Inr r
        \<and> \<not> (\<exists>e\<in>set (errors r). err_type e = Ausencia_de_Palabras_Clave))"
proof (intro conjI)
  obtain r where r: "validate_requirement latin1_db (AdvancedRequirementValidator None)
           (cps ''Rendimiento alto'') True = Inr r"
    using validate_total_None by blast
  note k = keyword_error_iff [OF r, of None]
  from k keyword_examples(1)
  have p: "\<exists>e\<in>set (errors r). err_type e = Ausencia_de_Palabras_Clave"
    unfolding keyword_texts_normalized by simp
  have "\<forall>e\<in>set (errors r). err_type e = Ausencia_de_Palabras_Clave \<longrightarrow>
             err_suggestion e = cps ''Incluya palabras como: debe, deber'' @ [0xED] @ cps ''a, tiene que''"
  proof (intro ballI impI)
    fix e assume "e \<in> set (errors r)" "err_type e = Ausencia_de_Palabras_Clave"
    with k have "AdvancedRequirementValidator None = AdvancedRequirementValidator None \<longrightarrow>
        err_suggestion e =
          (if True
           then cps ''Incluya palabras como: debe, deber'' @ [0xED] @ cps ''a, tiene que''
           else cps ''Incluya palabras como: rendimiento, seguridad, escalabilidad'')"
      by blast
    then show "err_suggestion e = cps ''Incluya palabras como: debe, deber'' @ [0xED] @ cps ''a, tiene que''"
      by simp
  qed
  with r p show "\<exists>r. validate_requirement latin1_db (AdvancedRequirementValidator None)
           (cps ''Rendimiento alto'') True = Inr r
        \<and> (\<exists>e\<in>set (errors r). err_type e = Ausencia_de_Palabras_Clave)
        \<and> (\<forall>e\<in>set (errors r). err_type e = Ausencia_de_Palabras_Clave \<longrightarrow>
             err_suggestion e =
               cps ''Incluya palabras como: debe, deber'' @ [0xED] @ cps ''a, tiene que'')"
    by blast
next
  obtain r where r: "validate_requirement latin1_db (AdvancedRequirementValidator None)
           (cps ''Rendimiento alto'') False = Inr r"
    using validate_total_None by blast
  from keyword_error_iff [OF r, of None] keyword_examples(2)
  have "\<not> (\<exists>e\<in>set (errors r). err_type e = Ausencia_de_Palabras_Clave)"
    unfolding keyword_texts_normalized by simp
  with r show "\<exists>r. validate_requirement latin1_db (AdvancedRequirementValidator None)
           (cps ''Rendimiento alto'') False = Inr r
        \<and> \<not> (\<exists>e\<in>set (errors r). err_type e = Ausencia_de_Palabras_Clave)"
    by blast
next
  obtain r where r: "validate_requirement latin1_db (AdvancedRequirementValidator None)
           (cps ''El sistema debe calcular'') False = Inr r"
    using validate_total_None by blast
  note k = keyword_error_iff [OF r, of None]
  from k keyword_examples(3)
  have p: "\<exists>e\<in>set (errors r). err_type e = Ausencia_de_Palabras_Clave"
    unfolding keyword_texts_normalized by simp
  have "\<forall>e\<in>set (errors r). err_type e = Ausencia_de_Palabras_Clave \<longrightarrow>
             err_suggestion e = cps ''Incluya palabras como: rendimiento, seguridad, escalabilidad''"
  proof (intro ballI impI)
    fix e assume "e \<in> set (errors r)" "err_type e = Ausencia_de_Palabras_Clave"
    with k have "AdvancedRequirementValidator None = AdvancedRequirementValidator None \<longrightarrow>
        err_suggestion e =
          (if False
           then cps ''Incluya palabras como: debe, deber'' @ [0xED] @ cps ''a, tiene que''
           else cps ''Incluya palabras como: rendimiento, seguridad, escalabilidad'')"
      by blast
    then show "err_suggestion e = cps ''Incluya palabras como: rendimiento, seguridad, escalabilidad''"
      by simp
  qed
  with r p show "\<exists>r. validate_requirement latin1_db (AdvancedRequirementValidator None)
           (cps ''El sistema debe calcular'') False = Inr r
        \<and> (\<exists>e\<in>set (errors r). err_type e = Ausencia_de_Palabras_Clave)
        \<and> (\<forall>e\<in>set (errors r). err_type e = Ausencia_de_Palabras_Clave \<longrightarrow>
             err_suggestion e =
               cps ''Incluya palabras como: rendimiento, seguridad, escalabilidad'')"
    by blast
next
  obtain r where r: "validate_requirement latin1_db (AdvancedRequirementValidator None)
           (cps ''El sistema debe calcular'') True = Inr r"
    using validate_total_None by blast
  from keyword_error_iff [OF r, of None] keyword_examples(4)
  have "\<not> (\<exists>e\<in>set (errors r). err_type e = Ausencia_de_Palabras_Clave)"
    unfolding keyword_texts_normalized by simp
  with r show "\<exists>r. validate_requirement latin1_db (AdvancedRequirementValidator None)
           (cps ''El sistema debe calcular'') True = Inr r
        \<and> \<not> (\<exists>e\<in>set (errors r). err_type e = Ausencia_de_Palabras_Clave)"
    by blast
qed

subsection \<open>Accented entries of the weak-word table\<close>

lemma str_in_needs_char: "c \<in> set w \<Longrightarrow> c \<notin> set s \<Longrightarrow> \<not> str_in w s"
  using str_in_subset by blast

lemma normalize_text_subset: "set (normalize_text u text) \<subseteq> set (nfd u (lower u text))"
  by (auto simp: normalize_text_def)

lemma ambiguous_words_found_unaccented:
  assumes "0xE1 \<notin> set n" and "0xED \<notin> set n" and "0xFA \<notin> set n"
  shows "set (ambiguous_words_found (AdvancedRequirementValidator loaded) n) \<subseteq>
     {cps ''algo'', cps ''algunos'', cps ''tal vez'', cps ''aproximadamente'', cps ''creo que'',
      cps ''parece''}"
proof -
  have "\<not> str_in (cps ''alg'' @ [0xFA] @ cps ''n'') n"
    by (rule str_in_needs_char [OF _ assms(3)]) simp
  moreover have "\<not> str_in (cps ''quiz'' @ [0xE1] @ cps ''s'') n"
    by (rule str_in_needs_char [OF _ assms(1)]) simp
  moreover have "\<not> str_in (cps ''podr'' @ [0xED] @ cps ''a'') n"
    by (rule str_in_needs_char [OF _ assms(2)]) simp
  moreover have "\<not> str_in (cps ''m'' @ [0xE1] @ cps ''s o menos'') n"
    by (rule str_in_needs_char [OF _ assms(1)]) simp
  ultimately show ?thesis
    by (auto simp: ambiguous_words_found_def AdvancedRequirementValidator_def)
qed

lemma accented_entries_distinct:
  "cps ''alg'' @ [0xFA] @ cps ''n'' \<notin>
     {cps ''algo'', cps ''algunos'', cps ''tal vez'', cps ''aproximadamente'', cps ''creo que'',
      cps ''parece''}"
  "cps ''quiz'' @ [0xE1] @ cps ''s'' \<notin>
     {cps ''algo'', cps ''algunos'', cps ''tal vez'', cps ''aproximadamente'', cps ''creo que'',
      cps ''parece''}"
  "cps ''podr'' @ [0xED] @ cps ''a'' \<notin>
     {cps ''algo'', cps ''algunos'', cps ''tal vez'', cps ''aproximadamente'', cps ''creo que'',
      cps ''parece''}"
  "cps ''m'' @ [0xE1] @ cps ''s o menos'' \<notin>
     {cps ''algo'', cps ''algunos'', cps ''tal vez'', cps ''aproximadamente'', cps ''creo que'',
      cps ''parece''}"
  by (simp_all add: cps_def)

lemma latin1_decompose_no_precomposed:
  "c' \<in> set (latin1_decompose c) \<Longrightarrow> c' \<noteq> 0xE1 \<and> c' \<noteq> 0xED \<and> c' \<noteq> 0xFA"
  unfolding latin1_decompose_def latin1_decomposition_def
  by (auto split: if_splits)

lemma latin1_nfd_no_precomposed:
  "0xE1 \<notin> set (nfd latin1_db s) \<and> 0xED \<notin> set (nfd latin1_db s) \<and> 0xFA \<notin> set (nfd latin1_db s)"
  using latin1_decompose_no_precomposed by (auto simp: latin1_db_def)

text \<open>
  C8.  Unicode's NFD form holds no precomposed letter, so no a-acute, i-acute or
  u-acute (\<open>U+00E1\<close>, \<open>U+00ED\<close>, \<open>U+00FA\<close>) is left in its result.  Under
  that property of the tables, the words found by the ambiguity check never include
  one of the four accented entries of \<open>weak_words\<close>, whatever the text; and the
  \<open>Ambiguedad\<close> finding lists exactly the words found.
\<close>

theorem accented_weak_words_never_listed:
  assumes "\<forall>s. 0xE1 \<notin> set (nfd u s) \<and> 0xED \<notin> set (nfd u s) \<and> 0xFA \<notin> set (nfd u s)"
    and "validate_requirement u (AdvancedRequirementValidator loaded) requirement is_functional
           = Inr r"
  shows "let found = ambiguous_words_found (AdvancedRequirementValidator loaded)
                       (normalize_text u (strip u requirement))
         in cps ''alg'' @ [0xFA] @ cps ''n'' \<notin> set found
          \<and> cps ''quiz'' @ [0xE1] @ cps ''s'' \<notin> set found
          \<and> cps ''podr'' @ [0xED] @ cps ''a'' \<notin> set found
          \<and> cps ''m'' @ [0xE1] @ cps ''s o menos'' \<notin> set found
          \<and> (\<forall>e\<in>set (errors r). err_type e = Ambiguedad \<longrightarrow>
                err_description e =
                  cps ''Se encontraron palabras ambiguas: '' @ join (cps '', '') found)"
proof -
  define n where "n = normalize_text u (strip u requirement)"
  define found where "found = ambiguous_words_found (AdvancedRequirementValidator loaded) n"
  have "set n \<subseteq> set (nfd u (lower u (strip u requirement)))"
    unfolding n_def by (rule normalize_text_subset)
  with assms(1) have "0xE1 \<notin> set n" "0xED \<notin> set n" "0xFA \<notin> set n" by blast+
  then have sub: "set found \<subseteq>
     {cps ''algo'', cps ''algunos'', cps ''tal vez'', cps ''aproximadamente'', cps ''creo que'',
      cps ''parece''}"
    unfolding found_def by (rule ambiguous_words_found_unaccented)
  have 1: "cps ''alg'' @ [0xFA] @ cps ''n'' \<notin> set found"
    using sub accented_entries_distinct(1) by blast
  have 2: "cps ''quiz'' @ [0xE1] @ cps ''s'' \<notin> set found"
    using sub accented_entries_distinct(2) by blast
  have 3: "cps ''podr'' @ [0xED] @ cps ''a'' \<notin> set found"
    using sub accented_entries_distinct(3) by blast
  have 4: "cps ''m'' @ [0xE1] @ cps ''s o menos'' \<notin> set found"
    using sub accented_entries_distinct(4) by blast
  have 5: "\<forall>e\<in>set (errors r). err_type e = Ambiguedad \<longrightarrow>
                err_description e =
                  cps ''Se encontraron palabras ambiguas: '' @ join (cps '', '') found"
  proof
    fix e assume "e \<in> set (errors r)"
    then show "err_type e = Ambiguedad \<longrightarrow>
                err_description e =
                  cps ''Se encontraron palabras ambiguas: '' @ join (cps '', '') found"
      using run_checks_new_entries(1)
        [OF assms(2) [unfolded validate_requirement_def Let_def], of e]
      by (simp add: found_def n_def)
  qed
  from 1 2 3 4 5 show ?thesis
    unfolding Let_def found_def n_def by (intro conjI)
qed

lemma quizas_algo_normalized:
  "normalize_text latin1_db (strip latin1_db (cps ''Quiz'' @ [0xE1] @ cps ''s algo''))
     = cps ''quizas algo''"
  by (simp add: normalize_text_def strip_def cps_def db_simps)

lemma quizas_algo_found:
  "ambiguous_words_found (AdvancedRequirementValidator None) (cps ''quizas algo'') = [cps ''algo'']"
  by (simp add: ambiguous_words_found_def AdvancedRequirementValidator_def cps_def)

theorem accented_weak_words_never_listed_witness:
  "\<exists>r. validate_requirement latin1_db (AdvancedRequirementValidator None)
          (cps ''Quiz'' @ [0xE1] @ cps ''s algo'') True = Inr r
       \<and> (\<exists>e\<in>set (errors r). err_type e = Ambiguedad)
       \<and> (\<forall>e\<in>set (errors r). err_type e = Ambiguedad \<longrightarrow>
            err_description e = cps ''Se encontraron palabras ambiguas: '' @ cps ''algo'')"
proof -
  obtain r where r: "validate_requirement latin1_db (AdvancedRequirementValidator None)
          (cps ''Quiz'' @ [0xE1] @ cps ''s algo'') True = Inr r"
    using validate_total_None by blast
  have nfd: "\<forall>s. 0xE1 \<notin> set (nfd latin1_db s) \<and> 0xED \<notin> set (nfd latin1_db s)
               \<and> 0xFA \<notin> set (nfd latin1_db s)"
    using latin1_nfd_no_precomposed by blast
  have "\<forall>e\<in>set (errors r). err_type e = Ambiguedad \<longrightarrow>
            err_description e = cps ''Se encontraron palabras ambiguas: '' @ cps ''algo''"
    using accented_weak_words_never_listed [OF nfd r]
    unfolding quizas_algo_normalized quizas_algo_found Let_def by simp
  moreover have "\<exists>e\<in>set (errors r). err_type e = Ambiguedad"
    unfolding has_error_iff validate_error_types [OF r] quizas_algo_normalized quizas_algo_found
    by simp
  ultimately show ?thesis using r by blast
qed

subsection \<open>The weak word with an accent, as a text\<close>

lemma quizas_variants_normalized:
  "normalize_text latin1_db (strip latin1_db (cps ''quiz'' @ [0xE1] @ cps ''s'')) = cps ''quizas''"
  "normalize_text latin1_db (strip latin1_db (cps ''quizas'')) = cps ''quizas''"
  "normalize_text latin1_db (strip latin1_db (cps ''QUIZ'' @ [0xC1] @ cps ''S'')) = cps ''quizas''"
  "normalize_text latin1_db (strip latin1_db (cps ''QUIZAS'')) = cps ''quizas''"
  by (simp_all add: normalize_text_def strip_def cps_def db_simps)

lemma quizas_variants_words:
  "length (split latin1_db (strip latin1_db (cps ''quiz'' @ [0xE1] @ cps ''s''))) = 1"
  "length (split latin1_db (strip latin1_db (cps ''quizas''))) = 1"
  "length (split latin1_db (strip latin1_db (cps ''QUIZ'' @ [0xC1] @ cps ''S''))) = 1"
  "length (split latin1_db (strip latin1_db (cps ''QUIZAS''))) = 1"
  by (simp_all add: split_def strip_def cps_def db_simps)

lemma quizas_checks:
  "ambiguous_words_found (AdvancedRequirementValidator None) (cps ''quizas'') = []"
  "\<not> has_keywords (AdvancedRequirementValidator None) True (cps ''quizas'')"
  by (simp_all add: ambiguous_words_found_def has_keywords_def keywords_of_def
      AdvancedRequirementValidator_def cps_def)

lemma quizas_report:
  assumes "normalize_text latin1_db (strip latin1_db s) = cps ''quizas''"
    and "length (split latin1_db (strip latin1_db s)) = 1"
  shows "map_sum id (\<lambda>r. map err_type (errors r))
           (validate_requirement latin1_db (AdvancedRequirementValidator None) s True)
         = Inr [Longitud_Insuficiente, Ausencia_de_Palabras_Clave]"
proof -
  obtain r where r: "validate_requirement latin1_db (AdvancedRequirementValidator None) s True
      = Inr r"
    using validate_total_None by blast
  show ?thesis
    unfolding r using validate_error_types [OF r]
    by (simp add: assms quizas_checks validator_nlp)
qed

text \<open>
  C2 on the code.  For the word with the accent (\<open>quiz\<close>, \<open>U+00E1\<close>, \<open>s\<close>),
  for \<open>quizas\<close> and for their upper-case forms the report holds the same errors,
  and no \<open>Ambiguedad\<close> error among them: only the length and the keyword errors.
  The table entry keeps its accent while the text has lost it, so the entry is never
  found.
\<close>

theorem quizas_not_flagged:
  "map_sum id (\<lambda>r. map err_type (errors r))
     (validate_requirement latin1_db (AdvancedRequirementValidator None)
        (cps ''quiz'' @ [0xE1] @ cps ''s'') True)
     = Inr [Longitud_Insuficiente, Ausencia_de_Palabras_Clave]
   \<and> map_sum id (\<lambda>r. map err_type (errors r))
     (validate_requirement latin1_db (AdvancedRequirementValidator None) (cps ''quizas'') True)
     = Inr [Longitud_Insuficiente, Ausencia_de_Palabras_Clave]
   \<and> map_sum id (\<lambda>r. map err_type (errors r))
     (validate_requirement latin1_db (AdvancedRequirementValidator None)
        (cps ''QUIZ'' @ [0xC1] @ cps ''S'') True)
     = Inr [Longitud_Insuficiente, Ausencia_de_Palabras_Clave]
   \<and> map_sum id (\<lambda>r. map err_type (errors r))
     (validate_requirement latin1_db (AdvancedRequirementValidator None) (cps ''QUIZAS'') True)
     = Inr [Longitud_Insuficiente, Ausencia_de_Palabras_Clave]
   \<and> Ambiguedad \<notin> set [Longitud_Insuficiente, Ausencia_de_Palabras_Clave]"
  by (intro conjI quizas_report quizas_variants_normalized quizas_variants_words)
    (simp add: label_distinct label_distinct [symmetric])

section \<open>The two readings agree\<close>

subsection \<open>Actions\<close>

lemma then_do_ret [simp]: "then_do (ret x) k st = k x st"
  by (simp add: then_do_def ret_def)

lemma ret_apply [simp]: "ret x st = (Inr x, st)"
  by (simp add: ret_def)

lemma then_do_lift_Inr [simp]: "then_do (lift (Inr x)) k st = k x st"
  by (simp add: then_do_def lift_def)

lemma then_do_lift_Inl [simp]: "then_do (lift (Inl e)) k st = (Inl e, st)"
  by (simp add: then_do_def lift_def)

lemma then_do_read_list [simp]: "then_do (read_list a) k st = k (cells st a) st"
  by (simp add: then_do_def read_list_def)

lemma then_do_new_list [simp]:
  "then_do (new_list xs) k st =
     k (fresh st) (st\<lparr> cells := (cells st)(fresh st := xs), fresh := Suc (fresh st) \<rparr>)"
  by (simp add: then_do_def new_list_def)

lemma then_do_append_to_ref [simp]:
  "then_do (append_to (VRef a) v) k st =
     k () (st\<lparr> cells := (cells st)(a := cells st a @ [v]) \<rparr>)"
  by (simp add: then_do_def append_to_def)

subsection \<open>Lists of strings\<close>

lemma all_Str_map: "list_all is_Str xs \<Longrightarrow> xs = map Str (map the_Str xs)"
  by (induction xs) (auto simp: is_Str_def the_Str_def split: item.splits)

lemma the_Str_Str [simp]: "map the_Str (map Str ws) = ws"
  by (induction ws) (simp_all add: the_Str_def)

lemma items_in_strings:
  "items_in (map Str ws) s = Inr (map Str (filter (\<lambda>w. str_in w s) ws))"
  by (induction ws) (simp_all add: item_in_def)

lemma any_in_strings: "any_in (map Str ws) s = Inr (list_ex (\<lambda>w. str_in w s) ws)"
  by (induction ws) (simp_all add: item_in_def)

lemma strings_of_strings: "strings (map Str ws) = Inr ws"
  by (induction ws) simp_all

lemma join_items_strings: "join_items sep (map Str ws) = Inr (join sep ws)"
  by (simp add: join_items_def strings_of_strings)

lemma without_Mn_chars:
  "without_Mn u (map (\<lambda>c. [c]) s) = Inr (map (\<lambda>c. [c]) (filter (\<lambda>c. \<not> is_Mn u c) s))"
  by (induction s) (simp_all add: category_is_Mn_def)

lemma concat_chars: "concat (map (\<lambda>c. [c]) s) = s"
  by (induction s) simp_all

lemma normalize_text_obj_eq: "normalize_text_obj u text = Inr (normalize_text u text)"
  by (simp add: normalize_text_obj_def normalize_text_def without_Mn_chars concat_chars)

subsection \<open>Reading a report\<close>

lemma error_entries_map: "error_entries (map ErrorEntry es) = Some es"
  by (induction es) simp_all

lemma suggestion_entries_map: "suggestion_entries (map SuggestionEntry ss) = Some ss"
  by (induction ss) simp_all

lemma holds_report_of: "holds_report ea sa st d r \<Longrightarrow> report_of st d = Some r"
  by (simp add: holds_report_def report_of_def error_entries_map suggestion_entries_map)

subsection \<open>One statement at a time\<close>

lemma record_error_stmt_sim:
  assumes "holds_report ea sa st d r"
  shows "\<exists>d' st'. record_error_stmt e d st = (Inr d', st')
           \<and> holds_report ea sa st' d' (record_error e r)
           \<and> fresh st' = fresh st
           \<and> (\<forall>a. a \<noteq> ea \<longrightarrow> cells st' a = cells st a)"
  using assms
  by (simp add: record_error_stmt_def Let_def getitem_def holds_report_def record_error_def)

lemma length_stmt_sim:
  assumes "holds_report ea sa st d r"
  shows "\<exists>d' st'. length_stmt u q d st = (Inr d', st')
           \<and> holds_report ea sa st' d' (length_check u q r)
           \<and> fresh st' = fresh st
           \<and> (\<forall>a. a \<noteq> ea \<longrightarrow> cells st' a = cells st a)"
proof (cases "length (split u q) < 5")
  case True
  have "length_check u q r
      = record_error
          \<lparr> err_type = Longitud_Insuficiente,
            err_description = err_description Longitud_error,
            err_suggestion = err_suggestion Longitud_error \<rparr> r"
    using True by (simp add: length_check_def Longitud_error_def)
  also have "\<lparr> err_type = Longitud_Insuficiente,
            err_description = err_description Longitud_error,
            err_suggestion = err_suggestion Longitud_error \<rparr> = Longitud_error"
    by (simp add: Longitud_error_def)
  finally have "length_check u q r = record_error Longitud_error r" .
  with True record_error_stmt_sim [OF assms, of Longitud_error] show ?thesis
    by (simp add: length_stmt_def)
next
  case False
  with assms show ?thesis by (simp add: length_stmt_def length_check_def)
qed

lemma ambiguity_stmt_sim:
  assumes "holds_report ea sa st d r"
    and "cells st (weak_words_ref self) = map Str (weak_words v)"
  shows "\<exists>d' st'. ambiguity_stmt self n d st = (Inr d', st')
           \<and> holds_report ea sa st' d' (ambiguity_check v n r)
           \<and> fresh st' = fresh st
           \<and> (\<forall>a. a \<noteq> ea \<longrightarrow> cells st' a = cells st a)"
proof (cases "ambiguous_words_found v n = []")
  case True
  then show ?thesis
    using assms
    by (simp add: ambiguity_stmt_def ambiguity_check_def items_in_strings
        ambiguous_words_found_def)
next
  case False
  have "ambiguity_check v n r
      = record_error (Ambiguedad_error (join (cps '', '') (ambiguous_words_found v n))) r"
    using False by (simp add: ambiguity_check_def Ambiguedad_error_def)
  moreover have "ambiguity_stmt self n d st
      = record_error_stmt (Ambiguedad_error (join (cps '', '') (ambiguous_words_found v n))) d st"
    using False assms(2)
    by (simp add: ambiguity_stmt_def items_in_strings ambiguous_words_found_def
        join_items_strings)
  ultimately show ?thesis
    using record_error_stmt_sim [OF assms(1)] by simp
qed

lemma keyword_stmt_sim:
  assumes "holds_report ea sa st d r"
    and "cells st (functional_keywords_ref self) = map Str (functional_keywords v)"
    and "cells st (non_functional_keywords_ref self) = map Str (non_functional_keywords v)"
  shows "\<exists>d' st'. keyword_stmt self f n d st = (Inr d', st')
           \<and> holds_report ea sa st' d' (keyword_check v f n r)
           \<and> fresh st' = fresh st
           \<and> (\<forall>a. a \<noteq> ea \<longrightarrow> cells st' a = cells st a)"
proof -
  have ks: "cells st (if f then functional_keywords_ref self
                      else non_functional_keywords_ref self) = map Str (keywords_of v f)"
    using assms(2,3) by (simp add: keywords_of_def)
  show ?thesis
  proof (cases "has_keywords v f n")
    case True
    then show ?thesis
      using assms(1) ks
      by (simp add: keyword_stmt_def Let_def keyword_check_def any_in_strings has_keywords_def)
  next
    case False
    have "keyword_check v f n r
        = record_error (Palabras_Clave_error (join (cps '', '') (take 3 (keywords_of v f)))) r"
      using False by (simp add: keyword_check_def Palabras_Clave_error_def)
    moreover have "keyword_stmt self f n d st
        = record_error_stmt
            (Palabras_Clave_error (join (cps '', '') (take 3 (keywords_of v f)))) d st"
      using False ks
      by (simp add: keyword_stmt_def Let_def any_in_strings has_keywords_def
          take_map join_items_strings)
    ultimately show ?thesis
      using record_error_stmt_sim [OF assms(1)] by simp
  qed
qed

lemma specificity_stmt_sim:
  assumes "holds_report ea sa st d r" and "nlp v = nlp_attr self"
  shows "case specificity_check v q r of
           Inl e \<Rightarrow> specificity_stmt self q d st = (Inl (Raised e), st)
         | Inr r' \<Rightarrow>
             (\<exists>d' st'. specificity_stmt self q d st = (Inr d', st')
                \<and> holds_report ea sa st' d' r'
                \<and> fresh st' = fresh st
                \<and> (\<forall>a. a \<noteq> ea \<longrightarrow> cells st' a = cells st a))"
proof (cases "nlp_attr self")
  case None
  with assms show ?thesis
    by (simp add: specificity_stmt_def specificity_check_def)
next
  case (Some tag)
  show ?thesis
  proof (cases "tag q")
    case (Inl e)
    with Some assms(2) show ?thesis
      by (simp add: specificity_stmt_def specificity_check_def)
  next
    case (Inr doc)
    show ?thesis
    proof (cases "length (verbs doc) = 0 \<or> length (nouns doc) < 2")
      case True
      have "specificity_check v q r = Inr (record_error Especificidad_error r)"
        using True Some Inr assms(2)
        by (simp add: specificity_check_def Especificidad_error_def)
      moreover have "specificity_stmt self q d st = record_error_stmt Especificidad_error d st"
        using True Some Inr by (simp add: specificity_stmt_def)
      ultimately show ?thesis
        using record_error_stmt_sim [OF assms(1), of Especificidad_error] by simp
    next
      case False
      with Some Inr assms show ?thesis
        by (simp add: specificity_stmt_def specificity_check_def)
    qed
  qed
qed

lemma metrics_stmt_sim:
  assumes "holds_report ea sa st d r"
  shows "\<exists>d' st'. metrics_stmt u f q d st = (Inr d', st')
           \<and> holds_report ea sa st' d' (metrics_check u f q r)
           \<and> fresh st' = fresh st
           \<and> (\<forall>a. a \<noteq> sa \<longrightarrow> cells st' a = cells st a)"
  using assms
  by (auto simp: metrics_stmt_def metrics_check_def getitem_def holds_report_def
      Medibilidad_suggestion_def)

subsection \<open>The whole method\<close>

lemma validator_ok_tables:
  assumes "validator_ok st self"
  shows "cells st (weak_words_ref self) = map Str (weak_words (validator_of st self))"
    and "cells st (functional_keywords_ref self)
           = map Str (functional_keywords (validator_of st self))"
    and "cells st (non_functional_keywords_ref self)
           = map Str (non_functional_keywords (validator_of st self))"
    and "nlp (validator_of st self) = nlp_attr self"
proof -
  have a: "list_all is_Str (cells st (weak_words_ref self))"
    and b: "list_all is_Str (cells st (functional_keywords_ref self))"
    and c: "list_all is_Str (cells st (non_functional_keywords_ref self))"
    using assms by (simp_all add: validator_ok_def)
  show "cells st (weak_words_ref self) = map Str (weak_words (validator_of st self))"
    unfolding validator_of_def validator.simps by (rule all_Str_map [OF a])
  show "cells st (functional_keywords_ref self)
           = map Str (functional_keywords (validator_of st self))"
    unfolding validator_of_def validator.simps by (rule all_Str_map [OF b])
  show "cells st (non_functional_keywords_ref self)
           = map Str (non_functional_keywords (validator_of st self))"
    unfolding validator_of_def validator.simps by (rule all_Str_map [OF c])
  show "nlp (validator_of st self) = nlp_attr self"
    by (simp add: validator_of_def)
qed

lemma unchanged_validator:
  assumes "validator_ok st self" and "unchanged_below (fresh st) st st'"
    and "fresh st \<le> fresh st'"
  shows "validator_ok st' self" and "validator_of st' self = validator_of st self"
  using assms by (simp_all add: validator_ok_def validator_of_def unchanged_below_def)

lemma validate_requirement_obj_sim:
  assumes ok: "validator_ok st self"
  shows "\<exists>res st'. validate_requirement_obj u self q f st = (res, st')
           \<and> unchanged_below (fresh st) st st' \<and> fresh st' = Suc (Suc (fresh st))
           \<and> (case validate_requirement u (validator_of st self) q f of
                 Inl e \<Rightarrow> res = Inl (Raised e)
               | Inr r \<Rightarrow>
                   (\<exists>d. res = Inr d \<and> holds_report (fresh st) (Suc (fresh st)) st' d r))"
proof -
  define v where "v = validator_of st self"
  define req where "req = strip u q"
  define n where "n = normalize_text u req"
  define ea where "ea = fresh st"
  define sa where "sa = Suc (fresh st)"
  define st0 where
    "st0 = st\<lparr> cells := ((cells st)(ea := []))(sa := []), fresh := Suc sa \<rparr>"
  define d0 where
    "d0 = [''original_text'' \<mapsto> VStr req, ''is_valid'' \<mapsto> VBool True,
           ''errors'' \<mapsto> VRef ea, ''suggestions'' \<mapsto> VRef sa]"
  define r0 where
    "r0 = \<lparr> original_text = req, is_valid = True, errors = [], suggestions = [] \<rparr>"
  define rest where
    "rest = (\<lambda>d. then_do (length_stmt u req d) (\<lambda>d.
             then_do (ambiguity_stmt self n d) (\<lambda>d.
             then_do (keyword_stmt self f n d) (\<lambda>d.
             then_do (specificity_stmt self req d) (\<lambda>d.
             metrics_stmt u f req d)))))"
  have refs: "weak_words_ref self < ea" "functional_keywords_ref self < ea"
    "non_functional_keywords_ref self < ea"
    using ok by (simp_all add: validator_ok_def ea_def)
  have call: "validate_requirement_obj u self q f st = rest d0 st0"
    by (simp add: validate_requirement_obj_def Let_def normalize_text_obj_eq rest_def
        d0_def st0_def ea_def sa_def req_def n_def)
  have pure: "validate_requirement u v q f
      = (case specificity_check v req
                (keyword_check v f n (ambiguity_check v n (length_check u req r0))) of
           Inl e \<Rightarrow> Inl e
         | Inr r4 \<Rightarrow> Inr (metrics_check u f req r4))"
    unfolding validate_requirement_def run_checks_def Let_def req_def n_def r0_def ..
  have below0: "\<forall>a<ea. cells st0 a = cells st a"
    by (simp add: st0_def sa_def ea_def)
  have tables0:
    "cells st0 (weak_words_ref self) = map Str (weak_words v)"
    "cells st0 (functional_keywords_ref self) = map Str (functional_keywords v)"
    "cells st0 (non_functional_keywords_ref self) = map Str (non_functional_keywords v)"
    using refs below0 validator_ok_tables [OF ok] by (simp_all add: v_def)
  have h0: "holds_report ea sa st0 d0 r0"
    by (simp add: holds_report_def d0_def r0_def st0_def sa_def ea_def)
  from length_stmt_sim [OF h0, of u req] obtain d1 st1 where
    1: "length_stmt u req d0 st0 = (Inr d1, st1)"
    and h1: "holds_report ea sa st1 d1 (length_check u req r0)"
    and f1: "fresh st1 = fresh st0"
    and c1: "\<forall>a. a \<noteq> ea \<longrightarrow> cells st1 a = cells st0 a"
    by blast
  have tables1: "cells st1 (weak_words_ref self) = map Str (weak_words v)"
    "cells st1 (functional_keywords_ref self) = map Str (functional_keywords v)"
    "cells st1 (non_functional_keywords_ref self) = map Str (non_functional_keywords v)"
    using refs c1 tables0 by simp_all
  from ambiguity_stmt_sim [OF h1 tables1(1), of n] obtain d2 st2 where
    2: "ambiguity_stmt self n d1 st1 = (Inr d2, st2)"
    and h2: "holds_report ea sa st2 d2 (ambiguity_check v n (length_check u req r0))"
    and f2: "fresh st2 = fresh st1"
    and c2: "\<forall>a. a \<noteq> ea \<longrightarrow> cells st2 a = cells st1 a"
    by blast
  have tables2:
    "cells st2 (functional_keywords_ref self) = map Str (functional_keywords v)"
    "cells st2 (non_functional_keywords_ref self) = map Str (non_functional_keywords v)"
    using refs c2 tables1 by simp_all
  from keyword_stmt_sim [OF h2 tables2, of f n] obtain d3 st3 where
    3: "keyword_stmt self f n d2 st2 = (Inr d3, st3)"
    and h3: "holds_report ea sa st3 d3
               (keyword_check v f n (ambiguity_check v n (length_check u req r0)))"
    and f3: "fresh st3 = fresh st2"
    and c3: "\<forall>a. a \<noteq> ea \<longrightarrow> cells st3 a = cells st2 a"
    by blast
  define r3 where "r3 = keyword_check v f n (ambiguity_check v n (length_check u req r0))"
  have below3: "\<forall>a<ea. cells st3 a = cells st a"
    using below0 c1 c2 c3 by simp
  have fresh3: "fresh st3 = Suc sa"
    using f1 f2 f3 by (simp add: st0_def)
  have run3: "rest d0 st0
      = then_do (specificity_stmt self req d3) (\<lambda>d. metrics_stmt u f req d) st3"
  proof -
    have "then_do (length_stmt u req d0) k st0 = k d1 st1" for k :: "dict \<Rightarrow> dict action"
      using 1 by (simp add: then_do_def)
    moreover have "then_do (ambiguity_stmt self n d1) k st1 = k d2 st2"
      for k :: "dict \<Rightarrow> dict action"
      using 2 by (simp add: then_do_def)
    moreover have "then_do (keyword_stmt self f n d2) k st2 = k d3 st3"
      for k :: "dict \<Rightarrow> dict action"
      using 3 by (simp add: then_do_def)
    ultimately show ?thesis unfolding rest_def by simp
  qed
  have nlp: "nlp v = nlp_attr self"
    using validator_ok_tables(4) [OF ok] by (simp add: v_def)
  note s = specificity_stmt_sim [OF h3 nlp, of req, folded r3_def]
  show ?thesis
  proof (cases "specificity_check v req r3")
    case (Inl e)
    with s have "specificity_stmt self req d3 st3 = (Inl (Raised e), st3)" by simp
    then have "validate_requirement_obj u self q f st = (Inl (Raised e), st3)"
      unfolding call run3 by (simp add: then_do_def)
    moreover have "validate_requirement u v q f = Inl e"
      unfolding pure using Inl by (simp add: r3_def)
    moreover have "unchanged_below (fresh st) st st3"
      using below3 by (simp add: unchanged_below_def ea_def)
    moreover have "fresh st3 = Suc (Suc (fresh st))"
      using fresh3 by (simp add: sa_def)
    ultimately show ?thesis by (simp add: v_def)
  next
    case (Inr r4)
    with s obtain d4 st4 where
      4: "specificity_stmt self req d3 st3 = (Inr d4, st4)"
      and h4: "holds_report ea sa st4 d4 r4"
      and f4: "fresh st4 = fresh st3"
      and c4: "\<forall>a. a \<noteq> ea \<longrightarrow> cells st4 a = cells st3 a"
      by auto
    from metrics_stmt_sim [OF h4, of u f req] obtain d5 st5 where
      5: "metrics_stmt u f req d4 st4 = (Inr d5, st5)"
      and h5: "holds_report ea sa st5 d5 (metrics_check u f req r4)"
      and f5: "fresh st5 = fresh st4"
      and c5: "\<forall>a. a \<noteq> sa \<longrightarrow> cells st5 a = cells st4 a"
      by blast
    have "validate_requirement_obj u self q f st = (Inr d5, st5)"
      unfolding call run3 using 4 5 by (simp add: then_do_def)
    moreover have "validate_requirement u v q f = Inr (metrics_check u f req r4)"
      unfolding pure using Inr by (simp add: r3_def)
    moreover have "unchanged_below (fresh st) st st5"
      using below3 c4 c5 by (simp add: unchanged_below_def ea_def sa_def)
    moreover have "fresh st5 = Suc (Suc (fresh st))"
      using fresh3 f4 f5 by (simp add: sa_def)
    ultimately show ?thesis
      using h5 by (simp add: v_def ea_def sa_def)
  qed
qed

text \<open>What the caller gets is what the first reading computes.\<close>

lemma validate_requirement_obj_outcome:
  assumes "validator_ok st self"
  shows "outcome (validate_requirement_obj u self q f st)
      = (case validate_requirement u (validator_of st self) q f of
           Inl e \<Rightarrow> Inl (Raised e)
         | Inr r \<Rightarrow> Inr (Some r))"
proof -
  from validate_requirement_obj_sim [OF assms, of u q f] obtain res st' where
    "validate_requirement_obj u self q f st = (res, st')"
    and "case validate_requirement u (validator_of st self) q f of
           Inl e \<Rightarrow> res = Inl (Raised e)
         | Inr r \<Rightarrow> (\<exists>d. res = Inr d \<and> holds_report (fresh st) (Suc (fresh st)) st' d r)"
    by blast
  then show ?thesis
    by (auto simp: outcome_def holds_report_of split: sum.splits)
qed

lemma init_obj_ok:
  "\<exists>self st. init_obj loaded st0 = (Inr self, st) \<and> validator_ok st self
     \<and> nlp_attr self = loaded
     \<and> validator_of st self = AdvancedRequirementValidator loaded"
  by (simp add: init_obj_def validator_ok_def validator_of_def is_Str_def the_Str_def
      AdvancedRequirementValidator_def)

lemma validate_requirement_obj_raises:
  assumes "validator_ok st self" and "nlp_attr self = Some tag" and "tag (strip u q) = Inl te"
  shows "\<exists>st'. validate_requirement_obj u self q f st = (Inl (Raised te), st')"
proof -
  have "validate_requirement u (validator_of st self) q f = Inl te"
    using assms(2,3) validator_ok_tables(4) [OF assms(1)]
    by (simp add: validate_requirement_raises_iff)
  with validate_requirement_obj_sim [OF assms(1), of u q f] show ?thesis by auto
qed

text \<open>
  C10.  \<open>__init__\<close> leaves the validator with three lists of strings, and every
  call leaves it so.  On such a validator \<open>validate_requirement\<close> returns a
  dictionary that reads as a report, for every string (the empty one too) and either
  flag, when no tagger was loaded or the tagger returns a document for the stripped
  text: no key is missing, nothing but a list is appended to, nothing but a string
  is searched for or joined, and \<open>unicodedata.category\<close> is given single
  characters.  The only exception that can leave the method is the one the tagger
  raised.
\<close>

theorem validate_requirement_obj_total:
  "(\<exists>self st. init_obj loaded h = (Inr self, st) \<and> validator_ok st self
       \<and> nlp_attr self = loaded)
   \<and> (validator_ok st self \<longrightarrow>
        (nlp_attr self = None
           \<or> (\<exists>tag doc. nlp_attr self = Some tag \<and> tag (strip u requirement) = Inr doc) \<longrightarrow>
         (\<exists>d st' r. validate_requirement_obj u self requirement is_functional st = (Inr d, st')
            \<and> report_of st' d = Some r \<and> validator_ok st' self))
        \<and> (\<forall>e st'. validate_requirement_obj u self requirement is_functional st = (Inl e, st')
              \<longrightarrow> (\<exists>tag te. nlp_attr self = Some tag \<and> tag (strip u requirement) = Inl te
                      \<and> e = Raised te)
                  \<and> validator_ok st' self))"
proof (intro conjI impI allI)
  show "\<exists>self st. init_obj loaded h = (Inr self, st) \<and> validator_ok st self
       \<and> nlp_attr self = loaded"
    using init_obj_ok [of loaded h] by blast
next
  assume ok: "validator_ok st self"
    and tagger: "nlp_attr self = None
           \<or> (\<exists>tag doc. nlp_attr self = Some tag \<and> tag (strip u requirement) = Inr doc)"
  from validate_requirement_obj_sim [OF ok, of u requirement is_functional]
  obtain res st' where
    call: "validate_requirement_obj u self requirement is_functional st = (res, st')"
    and un: "unchanged_below (fresh st) st st'" and fr: "fresh st' = Suc (Suc (fresh st))"
    and sim: "case validate_requirement u (validator_of st self) requirement is_functional of
           Inl e \<Rightarrow> res = Inl (Raised e)
         | Inr r \<Rightarrow> (\<exists>d. res = Inr d \<and> holds_report (fresh st) (Suc (fresh st)) st' d r)"
    by blast
  from tagger obtain r where
    "validate_requirement u (validator_of st self) requirement is_functional = Inr r"
    using validate_returns [of "validator_of st self" u requirement is_functional]
      validator_ok_tables(4) [OF ok] by auto
  with sim obtain d where "res = Inr d" "holds_report (fresh st) (Suc (fresh st)) st' d r"
    by auto
  moreover have "validator_ok st' self"
    using unchanged_validator(1) [OF ok un] fr by simp
  ultimately show "\<exists>d st' r.
      validate_requirement_obj u self requirement is_functional st = (Inr d, st')
            \<and> report_of st' d = Some r \<and> validator_ok st' self"
    using call holds_report_of by blast
next
  fix e st'
  assume ok: "validator_ok st self"
    and raised: "validate_requirement_obj u self requirement is_functional st = (Inl e, st')"
  from validate_requirement_obj_sim [OF ok, of u requirement is_functional] raised
  have un: "unchanged_below (fresh st) st st'" and fr: "fresh st' = Suc (Suc (fresh st))"
    and sim: "case validate_requirement u (validator_of st self) requirement is_functional of
           Inl te \<Rightarrow> e = Raised te
         | Inr r \<Rightarrow> False"
    by (auto split: sum.splits)
  from sim obtain te where
    "validate_requirement u (validator_of st self) requirement is_functional = Inl te"
    and e: "e = Raised te"
    by (auto split: sum.splits)
  then have "\<exists>tag. nlp_attr self = Some tag \<and> tag (strip u requirement) = Inl te"
    using validator_ok_tables(4) [OF ok] by (simp add: validate_requirement_raises_iff)
  with e show "\<exists>tag te. nlp_attr self = Some tag \<and> tag (strip u requirement) = Inl te
      \<and> e = Raised te"
    by blast
  show "validator_ok st' self"
    using unchanged_validator(1) [OF ok un] fr by simp
qed

lemma algo_stripped: "strip latin1_db (cps ''algo'') = cps ''algo''"
  by (simp add: strip_def cps_def db_simps)

theorem validate_requirement_obj_total_witness:
  "(\<exists>self st. init_obj None empty_store = (Inr self, st) \<and> validator_ok st self
      \<and> (\<exists>d st' r. validate_requirement_obj latin1_db self [] False st = (Inr d, st')
            \<and> report_of st' d = Some r
            \<and> (\<exists>d2 st2 r2.
                  validate_requirement_obj latin1_db self (cps ''algo rapido'') True st'
                    = (Inr d2, st2)
                  \<and> report_of st2 d2 = Some r2)))
   \<and> (\<exists>self st d st' r. init_obj (Some sample_tagger) empty_store = (Inr self, st)
        \<and> validate_requirement_obj latin1_db self [] True st = (Inr d, st')
        \<and> report_of st' d = Some r)
   \<and> (\<exists>self st st'. init_obj (Some (\<lambda>text. Inl (TaggerFault text))) empty_store = (Inr self, st)
        \<and> validate_requirement_obj latin1_db self (cps ''algo'') True st
             = (Inl (Raised (TaggerFault (cps ''algo''))), st')
        \<and> validator_ok st' self)"
proof (intro conjI)
  from validate_requirement_obj_total [where loaded = None and h = empty_store]
  obtain self st where init: "init_obj None empty_store = (Inr self, st)"
    and ok: "validator_ok st self" and nlp: "nlp_attr self = None"
    by blast
  from validate_requirement_obj_total
    [where st = st and self = self and u = latin1_db and requirement = "[]"
       and is_functional = False] ok nlp
  obtain d st' r where 1: "validate_requirement_obj latin1_db self [] False st = (Inr d, st')"
    and r: "report_of st' d = Some r" and ok': "validator_ok st' self"
    by blast
  from validate_requirement_obj_total
    [where st = st' and self = self and u = latin1_db and requirement = "cps ''algo rapido''"
       and is_functional = True] ok' nlp
  obtain d2 st2 r2 where
    "validate_requirement_obj latin1_db self (cps ''algo rapido'') True st' = (Inr d2, st2)"
    and "report_of st2 d2 = Some r2"
    by blast
  with init ok 1 r
  show "\<exists>self st. init_obj None empty_store = (Inr self, st) \<and> validator_ok st self
      \<and> (\<exists>d st' r. validate_requirement_obj latin1_db self [] False st = (Inr d, st')
            \<and> report_of st' d = Some r
            \<and> (\<exists>d2 st2 r2.
                  validate_requirement_obj latin1_db self (cps ''algo rapido'') True st'
                    = (Inr d2, st2)
                  \<and> report_of st2 d2 = Some r2))"
    by blast
next
  from validate_requirement_obj_total [where loaded = "Some sample_tagger" and h = empty_store]
  obtain self st where init: "init_obj (Some sample_tagger) empty_store = (Inr self, st)"
    and ok: "validator_ok st self" and nlp: "nlp_attr self = Some sample_tagger"
    by blast
  have "nlp_attr self = None
      \<or> (\<exists>tag doc. nlp_attr self = Some tag \<and> tag (strip latin1_db []) = Inr doc)"
    using nlp sample_tagger_returns [of "strip latin1_db []"] by blast
  with validate_requirement_obj_total
    [where st = st and self = self and u = latin1_db and requirement = "[]"
       and is_functional = True, THEN conjunct2] ok
  obtain d st' r where "validate_requirement_obj latin1_db self [] True st = (Inr d, st')"
    and "report_of st' d = Some r"
    by blast
  with init
  show "\<exists>self st d st' r. init_obj (Some sample_tagger) empty_store = (Inr self, st)
        \<and> validate_requirement_obj latin1_db self [] True st = (Inr d, st')
        \<and> report_of st' d = Some r"
    by blast
next
  from validate_requirement_obj_total
    [where loaded = "Some (\<lambda>text. Inl (TaggerFault text))" and h = empty_store]
  obtain self st where
    init: "init_obj (Some (\<lambda>text. Inl (TaggerFault text))) empty_store = (Inr self, st)"
    and ok: "validator_ok st self"
    and nlp: "nlp_attr self = Some (\<lambda>text. Inl (TaggerFault text))"
    by blast
  from validate_requirement_obj_raises [OF ok nlp, of latin1_db "cps ''algo''"]
  obtain st' where raised: "validate_requirement_obj latin1_db self (cps ''algo'') True st
      = (Inl (Raised (TaggerFault (cps ''algo''))), st')"
    unfolding algo_stripped by blast
  from validate_requirement_obj_total
    [where st = st and self = self and u = latin1_db and requirement = "cps ''algo''"
       and is_functional = True] ok raised
  have "validator_ok st' self" by blast
  with init raised
  show "\<exists>self st st'.
      init_obj (Some (\<lambda>text. Inl (TaggerFault text))) empty_store = (Inr self, st)
        \<and> validate_requirement_obj latin1_db self (cps ''algo'') True st
             = (Inl (Raised (TaggerFault (cps ''algo''))), st')
        \<and> validator_ok st' self"
    by blast
qed

text \<open>
  C9.  A call changes no object that was in use before it: the three tables are
  after the call what they were.  So a second call with the same arguments, made in
  the store that the first one left, gives its caller the same thing: a report equal
  to the first one field by field and entry by entry (in two new lists), or the same
  exception.  The report of the first call reads the same after the second.  The
  tagger is a function of the text: its state is fixed.
\<close>

theorem validate_requirement_obj_deterministic:
  assumes "validator_ok st self"
    and "validate_requirement_obj u self requirement is_functional st = (res1, st1)"
    and "validate_requirement_obj u self requirement is_functional st1 = (res2, st2)"
  shows "outcome (res1, st1) = outcome (res2, st2)
       \<and> outcome (res1, st2) = outcome (res1, st1)
       \<and> cells st2 (weak_words_ref self) = cells st (weak_words_ref self)
       \<and> cells st2 (functional_keywords_ref self) = cells st (functional_keywords_ref self)
       \<and> cells st2 (non_functional_keywords_ref self)
           = cells st (non_functional_keywords_ref self)"
proof -
  from validate_requirement_obj_sim [OF assms(1), of u requirement is_functional] assms(2)
  have un1: "unchanged_below (fresh st) st st1" and fr1: "fresh st1 = Suc (Suc (fresh st))"
    and sim1: "case validate_requirement u (validator_of st self) requirement is_functional of
           Inl e \<Rightarrow> res1 = Inl (Raised e)
         | Inr r \<Rightarrow> (\<exists>d. res1 = Inr d \<and> holds_report (fresh st) (Suc (fresh st)) st1 d r)"
    by auto
  have ok1: "validator_ok st1 self" and v1: "validator_of st1 self = validator_of st self"
    using unchanged_validator [OF assms(1) un1] fr1 by simp_all
  from validate_requirement_obj_sim [OF ok1, of u requirement is_functional] assms(3)
  have un2: "unchanged_below (fresh st1) st1 st2"
    by auto
  have "outcome (res1, st1) = outcome (res2, st2)"
    using validate_requirement_obj_outcome [OF assms(1), of u requirement is_functional]
      validate_requirement_obj_outcome [OF ok1, of u requirement is_functional]
    by (simp add: assms(2,3) v1)
  moreover have "outcome (res1, st2) = outcome (res1, st1)"
  proof (cases res1)
    case (Inl e)
    then show ?thesis by (simp add: outcome_def)
  next
    case (Inr d)
    with sim1 obtain r where h: "holds_report (fresh st) (Suc (fresh st)) st1 d r"
      by (auto split: sum.splits)
    have "cells st2 (fresh st) = cells st1 (fresh st)"
      and "cells st2 (Suc (fresh st)) = cells st1 (Suc (fresh st))"
      using un2 fr1 by (simp_all add: unchanged_below_def)
    with h have "holds_report (fresh st) (Suc (fresh st)) st2 d r"
      by (simp add: holds_report_def)
    with h Inr show ?thesis by (simp add: outcome_def holds_report_of)
  qed
  moreover have "cells st2 a = cells st a" if "a < fresh st" for a
    using that un1 un2 fr1 by (simp add: unchanged_below_def)
  ultimately show ?thesis
    using assms(1) by (simp add: validator_ok_def)
qed

lemma algo_rapido_checks:
  "normalize_text latin1_db (strip latin1_db (cps ''algo rapido'')) = cps ''algo rapido''"
  "ambiguous_words_found (AdvancedRequirementValidator None) (cps ''algo rapido'')
     = [cps ''algo'']"
  "\<not> has_keywords (AdvancedRequirementValidator None) True (cps ''algo rapido'')"
  by (simp_all add: normalize_text_def strip_def ambiguous_words_found_def has_keywords_def
      keywords_of_def AdvancedRequirementValidator_def cps_def db_simps)

theorem validate_requirement_obj_deterministic_witness:
  "\<exists>self st res1 st1 res2 st2 r.
      init_obj None empty_store = (Inr self, st)
    \<and> validate_requirement_obj latin1_db self (cps ''algo rapido'') True st = (res1, st1)
    \<and> validate_requirement_obj latin1_db self (cps ''algo rapido'') True st1 = (res2, st2)
    \<and> outcome (res1, st1) = Inr (Some r) \<and> outcome (res2, st2) = Inr (Some r)
    \<and> map err_type (errors r)
        = [Longitud_Insuficiente, Ambiguedad, Ausencia_de_Palabras_Clave]
    \<and> res1 \<noteq> res2"
proof -
  from init_obj_ok [of None empty_store] obtain self st where
    init: "init_obj None empty_store = (Inr self, st)" and ok: "validator_ok st self"
    and v: "validator_of st self = AdvancedRequirementValidator None"
    by blast
  obtain res1 st1 where
    1: "validate_requirement_obj latin1_db self (cps ''algo rapido'') True st = (res1, st1)"
    by (cases "validate_requirement_obj latin1_db self (cps ''algo rapido'') True st")
  obtain res2 st2 where
    2: "validate_requirement_obj latin1_db self (cps ''algo rapido'') True st1 = (res2, st2)"
    by (cases "validate_requirement_obj latin1_db self (cps ''algo rapido'') True st1")
  note same = validate_requirement_obj_deterministic [OF ok 1 2]
  obtain r where r: "validate_requirement latin1_db (AdvancedRequirementValidator None)
      (cps ''algo rapido'') True = Inr r"
    using validate_total_None by blast
  have types: "map err_type (errors r)
      = [Longitud_Insuficiente, Ambiguedad, Ausencia_de_Palabras_Clave]"
    using validate_error_types [OF r]
    by (simp add: algo_rapido_checks algo_rapido_words validator_nlp)
  have o1: "outcome (res1, st1) = Inr (Some r)"
    using validate_requirement_obj_outcome [OF ok, of latin1_db "cps ''algo rapido''" True]
    by (simp add: 1 v r)
  with same have o2: "outcome (res2, st2) = Inr (Some r)" by simp
  from validate_requirement_obj_sim [OF ok, of latin1_db "cps ''algo rapido''" True] 1
  obtain d1 where d1: "res1 = Inr d1" "d1 ''errors'' = Some (VRef (fresh st))"
    and un: "unchanged_below (fresh st) st st1" and fr: "fresh st1 = Suc (Suc (fresh st))"
    by (auto simp: v r holds_report_def)
  have ok1: "validator_ok st1 self" and v1: "validator_of st1 self = validator_of st self"
    using unchanged_validator [OF ok un] fr by simp_all
  from validate_requirement_obj_sim [OF ok1, of latin1_db "cps ''algo rapido''" True] 2
  obtain d2 where d2: "res2 = Inr d2" "d2 ''errors'' = Some (VRef (fresh st1))"
    by (auto simp: v1 v r holds_report_def)
  have differ: "res1 \<noteq> res2"
    using d1 d2 fr by auto
  show ?thesis
    by (intro exI conjI) (rule init 1 2 o1 o2 types differ)+
qed

end
